theory Spec2Isabelle
  imports Main
begin

section \<open>JavaScript strings and plain objects\<close>

text \<open>
  Strings are \<^typ>\<open>string\<close> (lists of characters). \<open>startsWith\<close> and
  \<open>str_includes\<close> are the two \<open>String.prototype\<close> tests the sources call
  (\<open>s.startsWith(p)\<close> and \<open>s.includes(p)\<close>): a prefix test and a test for a
  contiguous occurrence anywhere in the receiver. A character here is a byte, where the
  sources count UTF-16 code units; the two differ only in how many underscores
  \<open>replace_non_alnum\<close> writes for a character outside ASCII.
\<close>

fun startsWith :: "string \<Rightarrow> string \<Rightarrow> bool" where
  "startsWith s [] = True"
| "startsWith [] (p # ps) = False"
| "startsWith (c # cs) (p # ps) = (c = p \<and> startsWith cs ps)"

fun str_includes :: "string \<Rightarrow> string \<Rightarrow> bool" where
  "str_includes [] p = startsWith [] p"
| "str_includes (c # cs) p = (startsWith (c # cs) p \<or> str_includes cs p)"

text \<open>\<open>Number.prototype.toString()\<close> on a non-negative integer: its decimal digits.\<close>

definition digit_char :: "nat \<Rightarrow> char" where
  "digit_char d = ''0123456789'' ! (d mod 10)"

function toString_nat :: "nat \<Rightarrow> string" where
  "toString_nat n =
     (if n < 10 then [digit_char n] else toString_nat (n div 10) @ [digit_char (n mod 10)])"
  by pat_completeness auto
termination
  by (relation "measure (\<lambda>n. n)") auto

declare toString_nat.simps [simp del]

text \<open>
  \<open>s.replace(/[^a-zA-Z0-9]/g, '_')\<close>: every character outside the three ASCII ranges
  becomes an underscore.
\<close>

definition is_alnum :: "char \<Rightarrow> bool" where
  "is_alnum c =
     (c \<in> set ''abcdefghijklmnopqrstuvwxyzABCDEFGHIJKLMNOPQRSTUVWXYZ0123456789'')"

definition replace_non_alnum :: "string \<Rightarrow> string" where
  "replace_non_alnum s = map (\<lambda>c. if is_alnum c then c else CHR ''_'') s"

text \<open>
  A plain object whose values are strings, as the association list of its own enumerable
  properties in creation order. \<open>obj[k] = v\<close> overwrites an existing property in place and
  appends a new one; the key \<open>__proto__\<close> reaches the accessor of \<open>Object.prototype\<close>, which
  ignores a string, so no property is created. \<open>Object.keys\<close> lists array-index keys
  (canonical decimal numerals below \<open>2^32 - 1\<close>) first, in ascending numeric order, then the
  other keys in creation order. \<open>obj_get\<close> reads own properties only: \<open>None\<close> stands for
  a key the object does not have itself.
\<close>

type_synonym jsobj = "(string \<times> string) list"

definition obj_set :: "jsobj \<Rightarrow> string \<Rightarrow> string \<Rightarrow> jsobj" where
  "obj_set obj k v =
     (if k = ''__proto__'' then obj
      else if k \<in> set (map fst obj) then map (\<lambda>(k', v'). if k' = k then (k', v) else (k', v')) obj
      else obj @ [(k, v)])"

definition obj_get :: "jsobj \<Rightarrow> string \<Rightarrow> string option" where
  "obj_get obj k = map_of obj k"

definition digit_val :: "char \<Rightarrow> nat" where
  "digit_val c = of_char c - 48"

definition is_digit :: "char \<Rightarrow> bool" where
  "is_digit c = (c \<in> set ''0123456789'')"

definition numeral_val :: "string \<Rightarrow> nat" where
  "numeral_val s = foldl (\<lambda>acc c. 10 * acc + digit_val c) 0 s"

definition is_array_index :: "string \<Rightarrow> bool" where
  "is_array_index s =
     (s \<noteq> [] \<and> list_all is_digit s \<and> (s = ''0'' \<or> hd s \<noteq> CHR ''0'') \<and>
      numeral_val s < 4294967295)"

definition object_keys :: "jsobj \<Rightarrow> string list" where
  "object_keys obj =
     sort_key numeral_val (filter is_array_index (map fst obj)) @
     filter (\<lambda>k. \<not> is_array_index k) (map fst obj)"

text \<open>A value interpolated into a template literal: \<open>undefined\<close> prints as that word.\<close>

definition template_text :: "string option \<Rightarrow> string" where
  "template_text v = (case v of None \<Rightarrow> ''undefined'' | Some s \<Rightarrow> s)"


section \<open>The viewer component: state\<close>

text \<open>
  The four \<open>useState\<close> cells of \<open>ProxyContent\<close>. \<open>content\<close> is \<open>null\<close> or an object
  \<open>{type, url, message?}\<close> whose \<open>type\<close> is one of three strings; \<open>tableData\<close> is always
  an object \<open>{html, activeSheet}\<close>.
\<close>

datatype content_type = PdfT | ImageT | DownloadT

record content_obj =
  ctype :: content_type
  curl :: string
  cmessage :: "string option"

record table_data =
  html :: "jsobj option"
  activeSheet :: "string option"

record view_state =
  content :: "content_obj option"
  error :: "string option"
  tableData :: table_data
  htmlContent :: "string option"

text \<open>The initial values of the four cells.\<close>

definition initial_state :: view_state where
  "initial_state =
     \<lparr>content = None, error = None, tableData = \<lparr>html = None, activeSheet = None\<rparr>,
      htmlContent = None\<rparr>"


section \<open>Collaborators of the viewer\<close>

text \<open>
  A blob carries its declared type and its bytes; \<open>blob.text()\<close> and
  \<open>blob.arrayBuffer()\<close> both read the bytes. The parsing libraries and
  \<open>URL.createObjectURL\<close> are outside the repository and enter as functions: \<open>XLSX.read\<close>
  yields a workbook or throws, \<open>XLSX.utils.sheet_to_html\<close> renders one worksheet under a
  given element id or throws (for instance on a missing worksheet), \<open>Papa.parse\<close> with
  \<open>header: false\<close> yields \<open>result.data\<close>, an array of rows of string cells. A thrown
  \<open>Error\<close> is represented by its message.
\<close>

record blob =
  blob_type :: string
  blob_bytes :: string

type_synonym worksheet = string

record workbook =
  SheetNames :: "string list"
  Sheets :: "string \<Rightarrow> worksheet option"

record libs =
  createObjectURL :: "blob \<Rightarrow> string"
  XLSX_read :: "string \<Rightarrow> string + workbook"
  sheet_to_html :: "worksheet option \<Rightarrow> string \<Rightarrow> string + string"
  Papa_parse :: "string \<Rightarrow> string list list"
  encodeURIComponent :: "string \<Rightarrow> string"


section \<open>\<open>handleContentType\<close>\<close>

text \<open>The \<open>forEach\<close> over \<open>workbook.SheetNames\<close> that fills \<open>sheets\<close>; a throw ends it.\<close>

fun forEach_sheet :: "libs \<Rightarrow> workbook \<Rightarrow> string list \<Rightarrow> jsobj \<Rightarrow> string + jsobj" where
  "forEach_sheet L wb [] sheets = Inr sheets"
| "forEach_sheet L wb (sheetName # rest) sheets =
     (case sheet_to_html L (Sheets wb sheetName) (''sheet-'' @ replace_non_alnum sheetName) of
        Inl e \<Rightarrow> Inl e
      | Inr h \<Rightarrow> forEach_sheet L wb rest (obj_set sheets sheetName h))"

text \<open>The CSV branch: columns from the first row, one object per later row, the table.\<close>

record column =
  key :: string
  name :: string

definition csv_columns :: "string list \<Rightarrow> column list" where
  "csv_columns header_row =
     map (\<lambda>(index, header).
            \<lparr>key = toString_nat index,
             name = (if header \<noteq> [] then header else ''Column '' @ toString_nat (index + 1))\<rparr>)
         (enumerate 0 header_row)"

definition csv_cell :: "string list \<Rightarrow> nat \<Rightarrow> string" where
  "csv_cell row colIndex =
     (if colIndex < length row \<and> row ! colIndex \<noteq> [] then row ! colIndex else [])"

definition csv_row_obj :: "column list \<Rightarrow> string list \<Rightarrow> jsobj" where
  "csv_row_obj columns row =
     fold (\<lambda>(colIndex, col) obj. obj_set obj (key col) (csv_cell row colIndex))
          (enumerate 0 columns) []"

definition csv_html :: "string list list \<Rightarrow> string" where
  "csv_html data =
     (let columns = csv_columns (hd data);
          rows = map (csv_row_obj columns) (tl data)
      in [CHR 0x0A] @ ''          <table border='' @ [CHR 0x22] @ ''1'' @ [CHR 0x22] @ ''>'' @
         [CHR 0x0A] @ ''            <thead><tr>'' @
         concat (map (\<lambda>col. ''<th>'' @ name col @ ''</th>'') columns) @
         ''</tr></thead>'' @
         [CHR 0x0A] @ ''            <tbody>'' @
         concat (map (\<lambda>row. ''<tr>'' @
                   concat (map (\<lambda>col. ''<td>'' @ template_text (obj_get row (key col)) @ ''</td>'')
                               columns) @
                   ''</tr>'') rows) @
         ''</tbody>'' @
         [CHR 0x0A] @ ''          </table>'' @
         [CHR 0x0A] @ ''        '')"

text \<open>
  The dispatcher proper. It either performs exactly one state update (\<open>Inr\<close>, the state
  after it) or throws before any update (\<open>Inl\<close>, the message).
\<close>

definition handleContentType :: "libs \<Rightarrow> string \<Rightarrow> blob \<Rightarrow> view_state \<Rightarrow> string + view_state" where
  "handleContentType L contentType b st =
     (let url = createObjectURL L b in
      if str_includes contentType ''application/pdf'' then
        Inr (st\<lparr>content := Some \<lparr>ctype = PdfT, curl = url, cmessage = None\<rparr>\<rparr>)
      else if str_includes contentType ''image/'' then
        Inr (st\<lparr>content := Some \<lparr>ctype = ImageT, curl = url, cmessage = None\<rparr>\<rparr>)
      else if str_includes contentType ''application/vnd.openxmlformats-officedocument.spreadsheetml.sheet''
            \<or> str_includes contentType ''application/vnd.ms-excel'' then
        (case XLSX_read L (blob_bytes b) of
           Inl e \<Rightarrow> Inl e
         | Inr wb \<Rightarrow>
             (case forEach_sheet L wb (SheetNames wb) [] of
                Inl e \<Rightarrow> Inl e
              | Inr sheets \<Rightarrow>
                  if length (object_keys sheets) = 0 then
                    Inl ''No valid sheets found in the Excel file''
                  else
                    Inr (st\<lparr>tableData :=
                           \<lparr>html = Some sheets, activeSheet = Some (hd (object_keys sheets))\<rparr>\<rparr>)))
      else if str_includes contentType ''text/csv'' then
        (let data = Papa_parse L (blob_bytes b) in
         if length data \<noteq> 0 then
           Inr (st\<lparr>tableData :=
                  \<lparr>html = Some [(''Sheet1'', csv_html data)], activeSheet = Some ''Sheet1''\<rparr>\<rparr>)
         else Inl ''No data found in the CSV file'')
      else if str_includes contentType ''application/msword''
            \<or> str_includes contentType ''application/vnd.openxmlformats-officedocument.wordprocessingml.document''
            \<or> str_includes contentType ''text/html'' then
        Inr (st\<lparr>htmlContent := Some (blob_bytes b)\<rparr>)
      else if str_includes contentType ''application/vnd.ms-powerpoint''
            \<or> str_includes contentType ''application/vnd.openxmlformats-officedocument.presentationml.presentation'' then
        Inr (st\<lparr>content := Some \<lparr>ctype = DownloadT, curl = url,
               cmessage = Some ''PPT/PPTX files cannot be rendered directly. Please download to view.''\<rparr>\<rparr>)
      else
        Inr (st\<lparr>content := Some \<lparr>ctype = DownloadT, curl = url,
               cmessage = Some ''This file type is not directly renderable. Please download to view.''\<rparr>\<rparr>))"


section \<open>Fetching\<close>

text \<open>
  The browser's \<open>fetch\<close> is the network: asked for a URL with the given options it
  rejects (\<open>Inl\<close>, the message of the error) or resolves to a response. Two calls with the
  same arguments may answer differently, so the network also sees how many requests were
  issued before. \<open>response.ok\<close> is the status lying in 200..299; \<open>response.blob()\<close> may
  itself reject.
\<close>

datatype fetch_opts = Mode_cors | Method_GET | Mode_no_cors

record fetch_request =
  req_url :: string
  req_opts :: fetch_opts

record fetch_response =
  status :: nat
  statusText :: string
  header_content_type :: "string option"
  response_blob :: "string + blob"

definition response_ok :: "fetch_response \<Rightarrow> bool" where
  "response_ok r = (200 \<le> status r \<and> status r \<le> 299)"

type_synonym network = "nat \<Rightarrow> fetch_request \<Rightarrow> string + fetch_response"

text \<open>
  What a run of the component touches: the state cells, the requests issued so far, and the
  states committed so far (each commit is a point at which the component renders).
\<close>

record world =
  ui :: view_state
  fetches :: "fetch_request list"
  rendered :: "view_state list"

definition do_fetch :: "network \<Rightarrow> string \<Rightarrow> fetch_opts \<Rightarrow> world \<Rightarrow> (string + fetch_response) \<times> world" where
  "do_fetch net u opts w =
     (net (length (fetches w)) \<lparr>req_url = u, req_opts = opts\<rparr>,
      w\<lparr>fetches := fetches w @ [\<lparr>req_url = u, req_opts = opts\<rparr>]\<rparr>)"

definition set_state :: "(view_state \<Rightarrow> view_state) \<Rightarrow> world \<Rightarrow> world" where
  "set_state f w = w\<lparr>ui := f (ui w), rendered := rendered w @ [f (ui w)]\<rparr>"

text \<open>The world of a component that has just been mounted.\<close>

definition initial_world :: world where
  "initial_world = \<lparr>ui = initial_state, fetches = [], rendered = []\<rparr>"


section \<open>\<open>fetchContent\<close>\<close>

text \<open>
  The four resets at the top of \<open>fetchContent\<close> run in one synchronous stretch and are
  committed together.
\<close>

definition reset_state :: "view_state \<Rightarrow> view_state" where
  "reset_state st =
     st\<lparr>content := None, tableData := \<lparr>html = None, activeSheet = None\<rparr>,
        htmlContent := None, error := None\<rparr>"

text \<open>The body of \<open>try\<close>: \<open>Some\<close> message when it throws, with the world as it is then.\<close>

definition try_block :: "libs \<Rightarrow> network \<Rightarrow> string \<Rightarrow> world \<Rightarrow> string option \<times> world" where
  "try_block L net url w =
     (if startsWith url ''blob:'' then
        (case do_fetch net url Mode_cors w of
           (Inl e, w1) \<Rightarrow> (Some e, w1)
         | (Inr response, w1) \<Rightarrow>
             if \<not> response_ok response then
               (Some (''Blob fetch failed: '' @ toString_nat (status response) @ '' - '' @
                      statusText response), w1)
             else
               (case response_blob response of
                  Inl e \<Rightarrow> (Some e, w1)
                | Inr b \<Rightarrow>
                    (case handleContentType L (blob_type b) b (ui w1) of
                       Inl e \<Rightarrow> (Some e, w1)
                     | Inr st \<Rightarrow> (None, set_state (\<lambda>_. st) w1))))
      else
        (let proxyUrl = ''http://localhost:5001/proxy?url='' @ encodeURIComponent L url in
         case do_fetch net proxyUrl Method_GET w of
           (Inl e, w1) \<Rightarrow> (Some e, w1)
         | (Inr response, w1) \<Rightarrow>
             if \<not> response_ok response then
               (Some (''Proxy fetch failed: '' @ toString_nat (status response) @ '' - '' @
                      statusText response), w1)
             else
               (let contentType =
                      (case header_content_type response of
                         None \<Rightarrow> ''application/octet-stream''
                       | Some h \<Rightarrow> if h \<noteq> [] then h else ''application/octet-stream'')
                in case response_blob response of
                     Inl e \<Rightarrow> (Some e, w1)
                   | Inr b \<Rightarrow>
                       (case handleContentType L contentType b (ui w1) of
                          Inl e \<Rightarrow> (Some e, w1)
                        | Inr st \<Rightarrow> (None, set_state (\<lambda>_. st) w1)))))"

text \<open>The \<open>catch\<close> clause, entered with the message of the caught error.\<close>

definition catch_block :: "libs \<Rightarrow> network \<Rightarrow> string \<Rightarrow> string \<Rightarrow> world \<Rightarrow> world" where
  "catch_block L net url msg w =
     (let w1 = set_state (\<lambda>st. st\<lparr>error := Some (''Failed to load content: '' @ msg @
                  ''. Ensure the proxy server is running at http://localhost:5001.'')\<rparr>) w in
      if startsWith url ''blob:'' then
        (case do_fetch net url Mode_cors w1 of
           (Inl blobErr, w2) \<Rightarrow> w2
         | (Inr res, w2) \<Rightarrow>
             (case response_blob res of
                Inl blobErr \<Rightarrow> w2
              | Inr b \<Rightarrow>
                  set_state (\<lambda>st. st\<lparr>content :=
                    Some \<lparr>ctype = DownloadT, curl = createObjectURL L b, cmessage = None\<rparr>\<rparr>) w2))
      else if startsWith url ''http'' then
        (case do_fetch net url Mode_no_cors w1 of
           (Inl httpErr, w2) \<Rightarrow> w2
         | (Inr res, w2) \<Rightarrow>
             (case response_blob res of
                Inl httpErr \<Rightarrow> w2
              | Inr b \<Rightarrow>
                  set_state (\<lambda>st. st\<lparr>content :=
                    Some \<lparr>ctype = DownloadT, curl = createObjectURL L b, cmessage = None\<rparr>\<rparr>) w2))
      else w1)"

text \<open>
  \<open>fetchContent\<close> for the \<open>url\<close> property. The only test applied to a missing property is
  \<open>!url\<close>, which \<open>undefined\<close>, \<open>null\<close> and the empty string all pass, so the empty string
  stands for all three.
\<close>

definition fetchContent :: "libs \<Rightarrow> network \<Rightarrow> string \<Rightarrow> world \<Rightarrow> world" where
  "fetchContent L net url w =
     (if url = [] then set_state (\<lambda>st. st\<lparr>error := Some ''No URL or link provided''\<rparr>) w
      else
        (case try_block L net url (set_state reset_state w) of
           (None, w1) \<Rightarrow> w1
         | (Some msg, w1) \<Rightarrow> catch_block L net url msg w1))"


section \<open>\<open>handleSheetChange\<close> and what is displayed\<close>

text \<open>
  The change handler of the sheet selector: a functional update of \<open>tableData\<close> that
  spreads the previous object and replaces \<open>activeSheet\<close>. The effect that calls
  \<open>fetchContent\<close> is keyed on the \<open>url\<close> property alone, so the re-render after this
  update starts no fetch.
\<close>

definition handleSheetChange :: "string \<Rightarrow> world \<Rightarrow> world" where
  "handleSheetChange target_value w =
     set_state (\<lambda>prev. prev\<lparr>tableData := (tableData prev)\<lparr>activeSheet := Some target_value\<rparr>\<rparr>) w"

text \<open>
  The element the component returns, reduced to the data it shows. A string cell counts as
  set when it is neither \<open>null\<close> nor empty, an object cell when it is not \<open>null\<close>. The table
  view carries the options of the \<open>select\<close>, its value, the element id used in the style
  sheet and the markup of the active sheet; reading \<open>activeSheet.replace\<close> off a \<open>null\<close>
  throws.
\<close>

datatype view =
    ErrorView string "string option"
  | LoadingView
  | TableView "string list" string string "string option"
  | RichHtmlView string
  | PdfEmbed string
  | ImageView string
  | DownloadView string string
  | RenderThrows
  | NullView

definition truthy :: "string option \<Rightarrow> bool" where
  "truthy v = (case v of None \<Rightarrow> False | Some s \<Rightarrow> s \<noteq> [])"

definition text_of :: "string option \<Rightarrow> string" where
  "text_of v = (case v of None \<Rightarrow> [] | Some s \<Rightarrow> s)"

definition render :: "view_state \<Rightarrow> view" where
  "render st =
     (if truthy (error st) then
        ErrorView (text_of (error st))
          (case content st of
             None \<Rightarrow> None
           | Some c \<Rightarrow> if ctype c = DownloadT then Some (curl c) else None)
      else if content st = None \<and> html (tableData st) = None \<and> \<not> truthy (htmlContent st) then
        LoadingView
      else
        (case html (tableData st) of
           Some sheets \<Rightarrow>
             (case activeSheet (tableData st) of
                None \<Rightarrow> RenderThrows
              | Some a \<Rightarrow>
                  TableView (object_keys sheets) a (''sheet-'' @ replace_non_alnum a)
                    (obj_get sheets a))
         | None \<Rightarrow>
             if truthy (htmlContent st) then RichHtmlView (text_of (htmlContent st))
             else
               (case content st of
                  None \<Rightarrow> NullView
                | Some c \<Rightarrow>
                    (case ctype c of
                       PdfT \<Rightarrow> PdfEmbed (curl c)
                     | ImageT \<Rightarrow> ImageView (curl c)
                     | DownloadT \<Rightarrow>
                         DownloadView
                           (if truthy (cmessage c) then text_of (cmessage c)
                            else ''This file type is not directly renderable. Please download to view.'')
                           (curl c)))))"


section \<open>The dispatch order as the specification words it\<close>

text \<open>
  The specification lists the renderers in priority order, each with the substrings that
  select it; the first entry with a substring occurring in the content type wins, and the
  generic download is chosen when none does. \<open>run_renderer\<close> is what the selected
  renderer then does.
\<close>

datatype renderer =
  R_pdf | R_image | R_spreadsheet | R_csv | R_word_html | R_powerpoint | R_download

definition spec_priority :: "(renderer \<times> string list) list" where
  "spec_priority =
     [(R_pdf, [''application/pdf'']),
      (R_image, [''image/'']),
      (R_spreadsheet, [''application/vnd.openxmlformats-officedocument.spreadsheetml.sheet'',
                       ''application/vnd.ms-excel'']),
      (R_csv, [''text/csv'']),
      (R_word_html, [''application/msword'',
                     ''application/vnd.openxmlformats-officedocument.wordprocessingml.document'',
                     ''text/html'']),
      (R_powerpoint, [''application/vnd.ms-powerpoint'',
                      ''application/vnd.openxmlformats-officedocument.presentationml.presentation''])]"

definition spec_dispatch :: "string \<Rightarrow> renderer" where
  "spec_dispatch contentType =
     (case find (\<lambda>(r, pats). list_ex (str_includes contentType) pats) spec_priority of
        Some (r, pats) \<Rightarrow> r
      | None \<Rightarrow> R_download)"

definition run_renderer :: "libs \<Rightarrow> renderer \<Rightarrow> blob \<Rightarrow> view_state \<Rightarrow> string + view_state" where
  "run_renderer L r b st =
     (case r of
        R_pdf \<Rightarrow>
          Inr (st\<lparr>content := Some \<lparr>ctype = PdfT, curl = createObjectURL L b, cmessage = None\<rparr>\<rparr>)
      | R_image \<Rightarrow>
          Inr (st\<lparr>content := Some \<lparr>ctype = ImageT, curl = createObjectURL L b, cmessage = None\<rparr>\<rparr>)
      | R_spreadsheet \<Rightarrow>
          (case XLSX_read L (blob_bytes b) of
             Inl e \<Rightarrow> Inl e
           | Inr wb \<Rightarrow>
               (case forEach_sheet L wb (SheetNames wb) [] of
                  Inl e \<Rightarrow> Inl e
                | Inr sheets \<Rightarrow>
                    (case object_keys sheets of
                       [] \<Rightarrow> Inl ''No valid sheets found in the Excel file''
                     | first # others \<Rightarrow>
                         Inr (st\<lparr>tableData := \<lparr>html = Some sheets, activeSheet = Some first\<rparr>\<rparr>))))
      | R_csv \<Rightarrow>
          (case Papa_parse L (blob_bytes b) of
             [] \<Rightarrow> Inl ''No data found in the CSV file''
           | header_row # data_rows \<Rightarrow>
               Inr (st\<lparr>tableData :=
                      \<lparr>html = Some [(''Sheet1'', csv_html (header_row # data_rows))],
                       activeSheet = Some ''Sheet1''\<rparr>\<rparr>))
      | R_word_html \<Rightarrow> Inr (st\<lparr>htmlContent := Some (blob_bytes b)\<rparr>)
      | R_powerpoint \<Rightarrow>
          Inr (st\<lparr>content := Some \<lparr>ctype = DownloadT, curl = createObjectURL L b,
                 cmessage = Some ''PPT/PPTX files cannot be rendered directly. Please download to view.''\<rparr>\<rparr>)
      | R_download \<Rightarrow>
          Inr (st\<lparr>content := Some \<lparr>ctype = DownloadT, curl = createObjectURL L b,
                 cmessage = Some ''This file type is not directly renderable. Please download to view.''\<rparr>\<rparr>))"


section \<open>The proxy server\<close>

text \<open>
  The two routes of \<open>server.js\<close> with the stages a request passes on its way: the
  CORS stage, the upload middleware, the handler, and the error-handling middleware at the
  end. The collaborators enter as functions: the \<open>URL\<close> constructor (the protocol of the
  parsed URL, or nothing when it throws), \<open>node-fetch\<close>, the headless browser run (launch,
  visit, wait, read the page; it yields the page or the message of the error thrown on the
  way), the Word converter, once as called with \<open>{arrayBuffer}\<close> and once as called with
  \<open>{buffer}\<close>, and \<open>encodeURIComponent\<close>. A response starts with status 200 and no
  headers; \<open>res.json\<close> sets the content type only when none is set yet, as Express does.
  The headers the CORS library adds to a request it lets through, and the JSON and
  static-file middleware, which pass both routes on unchanged, are left out.
\<close>

datatype res_body =
    No_body
  | Json_error string
  | Sent_text string
  | Sent_bytes string
  | Piped "string + string"

record http_response =
  res_status :: nat
  res_headers :: "string \<rightharpoonup> string"
  res_body :: res_body

record upstream_response =
  up_status :: nat
  up_statusText :: string
  up_content_type :: "string option"
  up_body :: "string + string"

definition upstream_ok :: "upstream_response \<Rightarrow> bool" where
  "upstream_ok r = (200 \<le> up_status r \<and> up_status r < 300)"

record server_env =
  URL_protocol :: "string \<Rightarrow> string option"
  node_fetch :: "string \<Rightarrow> string + upstream_response"
  puppeteer_content :: "string \<Rightarrow> string + string"
  mammoth_from_arrayBuffer :: "string \<Rightarrow> string + string"
  mammoth_from_buffer :: "string \<Rightarrow> string + string"
  node_encodeURIComponent :: "string \<Rightarrow> string"

definition fresh_response :: http_response where
  "fresh_response = \<lparr>res_status = 200, res_headers = Map.empty, res_body = No_body\<rparr>"

definition setHeader :: "string \<Rightarrow> string \<Rightarrow> http_response \<Rightarrow> http_response" where
  "setHeader h v res = res\<lparr>res_headers := (res_headers res)(h \<mapsto> v)\<rparr>"

definition status_json :: "nat \<Rightarrow> string \<Rightarrow> http_response \<Rightarrow> http_response" where
  "status_json code msg res =
     res\<lparr>res_status := code,
         res_headers :=
           (case res_headers res ''Content-Type'' of
              None \<Rightarrow> (res_headers res)(''Content-Type'' \<mapsto> ''application/json'')
            | Some t \<Rightarrow> res_headers res),
         res_body := Json_error msg\<rparr>"

definition send :: "res_body \<Rightarrow> http_response \<Rightarrow> http_response" where
  "send body res = res\<lparr>res_body := body\<rparr>"

definition or_default :: "string option \<Rightarrow> string \<Rightarrow> string" where
  "or_default v d = (case v of None \<Rightarrow> d | Some s \<Rightarrow> if s \<noteq> [] then s else d)"

subsection \<open>The CORS stage and the error-handling middleware\<close>

text \<open>
  \<open>app.use(cors({origin: ..., credentials: true}))\<close> stands in front of both routes. Its
  origin function lets a request through when it has no \<open>Origin\<close> header, when the origin
  equals an entry of the allow-list, or, for an entry that contains an asterisk, when the
  regular expression made from the entry (its first asterisk replaced by \<open>.*\<close>) finds a
  match somewhere in the origin. Otherwise it hands an error to Express, and the
  error-handling middleware answers 500. The expressions built this way consist of
  literal characters, the dot and dot-star; a dot matches any character but a line break.
\<close>

datatype regex_token = Lit char | Any_char | Any_chars

fun regex_tokens :: "string \<Rightarrow> regex_token list" where
  "regex_tokens [] = []"
| "regex_tokens (c # cs) =
     (if c = CHR ''.'' then
        (case cs of
           [] \<Rightarrow> [Any_char]
         | d # ds \<Rightarrow> if d = CHR ''*'' then Any_chars # regex_tokens ds
                     else Any_char # regex_tokens cs)
      else Lit c # regex_tokens cs)"

definition dot_matches :: "char \<Rightarrow> bool" where
  "dot_matches c = (c \<noteq> CHR 0x0A \<and> c \<noteq> CHR 0x0D)"

fun match_here :: "regex_token list \<Rightarrow> string \<Rightarrow> bool" where
  "match_here [] s = True"
| "match_here (Lit c # ts) [] = False"
| "match_here (Lit c # ts) (x # xs) = (x = c \<and> match_here ts xs)"
| "match_here (Any_char # ts) [] = False"
| "match_here (Any_char # ts) (x # xs) = (dot_matches x \<and> match_here ts xs)"
| "match_here (Any_chars # ts) [] = match_here ts []"
| "match_here (Any_chars # ts) (x # xs) =
     (match_here ts (x # xs) \<or> (dot_matches x \<and> match_here (Any_chars # ts) xs))"

fun regex_test :: "regex_token list \<Rightarrow> string \<Rightarrow> bool" where
  "regex_test ts [] = match_here ts []"
| "regex_test ts (x # xs) = (match_here ts (x # xs) \<or> regex_test ts xs)"

fun replace_first_star :: "string \<Rightarrow> string" where
  "replace_first_star [] = []"
| "replace_first_star (c # cs) =
     (if c = CHR ''*'' then ''.*'' @ cs else c # replace_first_star cs)"

definition allowedOrigins :: "string list" where
  "allowedOrigins =
     [''http://localhost:3000'',
      ''http://localhost:3001'',
      ''http://localhost:5173'',
      ''https://your-app.vercel.app'',
      ''https://*.vercel.app'']"

definition origin_allowed :: "string option \<Rightarrow> bool" where
  "origin_allowed origin =
     (case origin of
        None \<Rightarrow> True
      | Some ori \<Rightarrow>
          ori = [] \<or>
          list_ex (\<lambda>allowed.
                     if str_includes allowed ''*'' then
                       regex_test (regex_tokens (replace_first_star allowed)) ori
                     else allowed = ori)
                  allowedOrigins)"

definition error_middleware :: http_response where
  "error_middleware = status_json 500 ''Internal server error'' fresh_response"

subsection \<open>\<open>GET /proxy\<close>\<close>

record proxy_request =
  query_url :: "string option"
  proxy_origin :: "string option"

text \<open>The second \<open>try\<close> of the handler: \<open>Some\<close> message when it throws, and the response
  object as it is then.\<close>

definition proxy_try :: "server_env \<Rightarrow> proxy_request \<Rightarrow> string \<Rightarrow> http_response \<Rightarrow> string option \<times> http_response" where
  "proxy_try E req url res =
     (case node_fetch E url of
        Inl e \<Rightarrow> (Some e, res)
      | Inr response \<Rightarrow>
          if \<not> upstream_ok response then
            (Some (''Failed to fetch URL: '' @ up_statusText response), res)
          else
            (let contentType = or_default (up_content_type response) ''application/octet-stream'';
                 res1 = setHeader ''Content-Type'' contentType res;
                 res2 = setHeader ''Content-Disposition'' ''inline'' res1;
                 res3 = setHeader ''Access-Control-Allow-Origin'' (or_default (proxy_origin req) ''*'') res2
             in if str_includes contentType ''text/html'' then
                  (case puppeteer_content E url of
                     Inl e \<Rightarrow> (Some (''Puppeteer error: '' @ e), res3)
                   | Inr page \<Rightarrow> (None, send (Sent_text page) res3))
                else if str_includes contentType
                          ''application/vnd.openxmlformats-officedocument.wordprocessingml.document'' then
                  (case up_body response of
                     Inl e \<Rightarrow> (Some e, res3)
                   | Inr arrayBuffer \<Rightarrow>
                       (case mammoth_from_arrayBuffer E arrayBuffer of
                          Inl e \<Rightarrow> (Some e, res3)
                        | Inr h \<Rightarrow>
                            (None, send (Sent_text h) (setHeader ''Content-Type'' ''text/html'' res3))))
                else (None, send (Piped (up_body response)) res3)))"

text \<open>The handler of the route.\<close>

definition proxy_handler :: "server_env \<Rightarrow> proxy_request \<Rightarrow> http_response" where
  "proxy_handler E req =
     (case query_url req of
        None \<Rightarrow> status_json 400 ''URL parameter is required'' fresh_response
      | Some url \<Rightarrow>
          if url = [] then status_json 400 ''URL parameter is required'' fresh_response
          else
            (case URL_protocol E url of
               None \<Rightarrow> status_json 400 ''Invalid URL format'' fresh_response
             | Some protocol \<Rightarrow>
                 if protocol \<notin> set [''http:'', ''https:''] then
                   status_json 400 ''Only HTTP/HTTPS URLs are allowed'' fresh_response
                 else
                   (case proxy_try E req url fresh_response of
                      (Some message, res) \<Rightarrow>
                        status_json 500 (''Error fetching URL: '' @ message) res
                    | (None, res) \<Rightarrow> res)))"

text \<open>The route: the CORS stage, then the handler.\<close>

definition get_proxy :: "server_env \<Rightarrow> proxy_request \<Rightarrow> http_response" where
  "get_proxy E req =
     (if origin_allowed (proxy_origin req) then proxy_handler E req else error_middleware)"

subsection \<open>\<open>POST /upload\<close>\<close>

text \<open>
  A request carries at most one part in the field \<open>file\<close>. The middleware applies the
  \<open>fileFilter\<close> and the size limit of the configuration; what it rejects goes to the
  error-handling middleware, what it accepts becomes \<open>req.file\<close>. The handler also
  reports the conversions it started.
\<close>

record upload_file =
  originalname :: string
  mimetype :: string
  buffer :: string

record upload_request =
  file_part :: "upload_file option"
  upload_origin :: "string option"

definition allowedTypes :: "string list" where
  "allowedTypes =
     [''application/pdf'',
      ''text/csv'',
      ''application/vnd.ms-excel'',
      ''application/vnd.openxmlformats-officedocument.spreadsheetml.sheet'',
      ''application/msword'',
      ''application/vnd.openxmlformats-officedocument.wordprocessingml.document'',
      ''application/vnd.ms-powerpoint'',
      ''application/vnd.openxmlformats-officedocument.presentationml.presentation'',
      ''image/jpeg'',
      ''image/png'']"

definition fileSize_limit :: nat where
  "fileSize_limit = 20 * 1024 * 1024"

definition upload_single :: "upload_request \<Rightarrow> string + upload_file option" where
  "upload_single req =
     (case file_part req of
        None \<Rightarrow> Inr None
      | Some f \<Rightarrow>
          if mimetype f \<notin> set allowedTypes then Inl (''Unsupported file type: '' @ mimetype f)
          else if fileSize_limit < length (buffer f) then Inl ''File too large''
          else Inr (Some f))"

datatype conversion = Converted string

definition upload_handler :: "server_env \<Rightarrow> upload_request \<Rightarrow> upload_file option \<Rightarrow> conversion list \<times> http_response" where
  "upload_handler E req req_file =
     (case req_file of
        None \<Rightarrow> ([], status_json 400 ''No file uploaded'' fresh_response)
      | Some f \<Rightarrow>
          (let res1 = setHeader ''Access-Control-Allow-Origin''
                        (or_default (upload_origin req) ''*'') fresh_response;
               res2 = setHeader ''Content-Disposition''
                        (''inline; filename='' @ [CHR 0x22] @
                         node_encodeURIComponent E (originalname f) @ [CHR 0x22]) res1
           in if str_includes (mimetype f)
                   ''application/vnd.openxmlformats-officedocument.wordprocessingml.document'' then
                (case mammoth_from_buffer E (buffer f) of
                   Inl e \<Rightarrow>
                     ([Converted (buffer f)], status_json 500 (''Error processing file: '' @ e) res2)
                 | Inr h \<Rightarrow>
                     ([Converted (buffer f)],
                      send (Sent_text h) (setHeader ''Content-Type'' ''text/html'' res2)))
              else ([], send (Sent_bytes (buffer f)) (setHeader ''Content-Type'' (mimetype f) res2))))"

text \<open>The route: the CORS stage, then the upload middleware, then the handler.\<close>

definition post_upload :: "server_env \<Rightarrow> upload_request \<Rightarrow> conversion list \<times> http_response" where
  "post_upload E req =
     (if origin_allowed (upload_origin req) then
        (case upload_single req of
           Inl err \<Rightarrow> ([], error_middleware)
         | Inr req_file \<Rightarrow> upload_handler E req req_file)
      else ([], error_middleware))"


section \<open>The table as the specification words it\<close>

text \<open>
  The specification's account of the CSV table: the header row gives the column names, a
  missing header cell gets the synthesized name \<open>Column N\<close> (\<open>N\<close> counting from one), and
  a data row shorter than the header row is filled up with empty cells. The surrounding
  markup is that of the template in the source.
\<close>

definition spec_column_name :: "nat \<Rightarrow> string \<Rightarrow> string" where
  "spec_column_name N header = (if header = [] then ''Column '' @ toString_nat N else header)"

definition spec_row_cells :: "nat \<Rightarrow> string list \<Rightarrow> string list" where
  "spec_row_cells K row = map (\<lambda>i. if i < length row then row ! i else []) [0..<K]"

definition spec_csv_table :: "string list \<Rightarrow> string list list \<Rightarrow> string" where
  "spec_csv_table header_row data_rows =
     [CHR 0x0A] @ ''          <table border='' @ [CHR 0x22] @ ''1'' @ [CHR 0x22] @ ''>'' @
     [CHR 0x0A] @ ''            <thead><tr>'' @
     concat (map (\<lambda>i. ''<th>'' @ spec_column_name (i + 1) (header_row ! i) @ ''</th>'')
                 [0..<length header_row]) @
     ''</tr></thead>'' @
     [CHR 0x0A] @ ''            <tbody>'' @
     concat (map (\<lambda>row. ''<tr>'' @
               concat (map (\<lambda>cell. ''<td>'' @ cell @ ''</td>'')
                           (spec_row_cells (length header_row) row)) @
               ''</tr>'') data_rows) @
     ''</tbody>'' @
     [CHR 0x0A] @ ''          </table>'' @
     [CHR 0x0A] @ ''        ''"

text \<open>The options of the sheet selector in a displayed view.\<close>

definition select_options :: "view \<Rightarrow> string list" where
  "select_options v = (case v of TableView opts a i h \<Rightarrow> opts | _ \<Rightarrow> [])"


section \<open>Outcomes of a fetch cycle\<close>

text \<open>
  What the \<open>try\<close> block has in hand when it reaches \<open>handleContentType\<close>, as a function
  of the number \<open>n\<close> of requests issued before: the content type and the blob, or the
  message of the error thrown before that point. The request it issues is
  \<open>first_request\<close>.
\<close>

definition first_request :: "libs \<Rightarrow> string \<Rightarrow> fetch_request" where
  "first_request L url =
     (if startsWith url ''blob:'' then \<lparr>req_url = url, req_opts = Mode_cors\<rparr>
      else \<lparr>req_url = ''http://localhost:5001/proxy?url='' @ encodeURIComponent L url,
            req_opts = Method_GET\<rparr>)"

definition fetch_outcome :: "libs \<Rightarrow> network \<Rightarrow> nat \<Rightarrow> string \<Rightarrow> string + (string \<times> blob)" where
  "fetch_outcome L net n url =
     (case net n (first_request L url) of
        Inl e \<Rightarrow> Inl e
      | Inr response \<Rightarrow>
          if \<not> response_ok response then
            Inl ((if startsWith url ''blob:'' then ''Blob fetch failed: '' else ''Proxy fetch failed: '') @
                 toString_nat (status response) @ '' - '' @ statusText response)
          else
            (case response_blob response of
               Inl e \<Rightarrow> Inl e
             | Inr b \<Rightarrow>
                 Inr (if startsWith url ''blob:'' then blob_type b
                      else (case header_content_type response of
                              None \<Rightarrow> ''application/octet-stream''
                            | Some h \<Rightarrow> if h \<noteq> [] then h else ''application/octet-stream''),
                      b)))"

text \<open>
  The download link a fallback fetch leaves behind: the inner \<open>try\<close> of the \<open>catch\<close>
  clause, which fetches with the given options, takes the body without looking at the
  status, and gives up silently when either step fails.
\<close>

definition fallback_content :: "libs \<Rightarrow> network \<Rightarrow> nat \<Rightarrow> string \<Rightarrow> fetch_opts \<Rightarrow> content_obj option" where
  "fallback_content L net n url opts =
     (case net n \<lparr>req_url = url, req_opts = opts\<rparr> of
        Inl e \<Rightarrow> None
      | Inr res \<Rightarrow>
          (case response_blob res of
             Inl e \<Rightarrow> None
           | Inr b \<Rightarrow> Some \<lparr>ctype = DownloadT, curl = createObjectURL L b, cmessage = None\<rparr>))"

definition failure_message :: "string \<Rightarrow> string" where
  "failure_message msg =
     ''Failed to load content: '' @ msg @
     ''. Ensure the proxy server is running at http://localhost:5001.''"

text \<open>The world right after the reset and the first request of a cycle.\<close>

definition after_request :: "libs \<Rightarrow> string \<Rightarrow> world \<Rightarrow> world" where
  "after_request L url w =
     \<lparr>ui = initial_state, fetches = fetches w @ [first_request L url],
      rendered = rendered w @ [initial_state]\<rparr>"


section \<open>Render states\<close>

text \<open>
  The variants of the specification's \<open>RenderState\<close>, the variant a displayed view belongs
  to, and the number of variants a state holds data for: an error message for Error, the
  sheet mapping for Table, the markup for RichHTML, a content object for Embed or
  Download. Loading holds no data.
\<close>

datatype render_variant = Loading | Error | Table | RichHTML | Embed | Download

definition variant_of :: "view \<Rightarrow> render_variant option" where
  "variant_of v =
     (case v of
        ErrorView m l \<Rightarrow> Some Error
      | LoadingView \<Rightarrow> Some Loading
      | TableView opts a i h \<Rightarrow> Some Table
      | RichHtmlView h \<Rightarrow> Some RichHTML
      | PdfEmbed u \<Rightarrow> Some Embed
      | ImageView u \<Rightarrow> Some Embed
      | DownloadView m u \<Rightarrow> Some Download
      | RenderThrows \<Rightarrow> None
      | NullView \<Rightarrow> None)"

definition payloads :: "view_state \<Rightarrow> nat" where
  "payloads st =
     (if content st \<noteq> None then 1 else 0) +
     (if html (tableData st) \<noteq> None then 1 else 0) +
     (if htmlContent st \<noteq> None then 1 else 0)"


text \<open>
  The states a fetch cycle passes through: without an error at most one payload cell is
  set; with an error the table and markup cells are empty and the content cell is empty or
  holds a download link; a sheet mapping always comes with an active sheet.
\<close>

definition cycle_coherent :: "view_state \<Rightarrow> bool" where
  "cycle_coherent st =
     ((html (tableData st) = None \<or> activeSheet (tableData st) \<noteq> None) \<and>
      (case error st of
         None \<Rightarrow> payloads st \<le> 1
       | Some e \<Rightarrow>
           e \<noteq> [] \<and> html (tableData st) = None \<and> htmlContent st = None \<and>
           (case content st of None \<Rightarrow> True | Some c \<Rightarrow> ctype c = DownloadT)))"





section \<open>Concrete inputs\<close>

text \<open>
  Library stubs, blobs, requests and networks used to run the definitions on explicit
  inputs.
\<close>

definition two_sheet_workbook :: workbook where
  "two_sheet_workbook =
     \<lparr>SheetNames = [''Data'', ''Notes''],
      Sheets = (\<lambda>n. if n = ''Data'' then Some ''d'' else if n = ''Notes'' then Some ''n'' else None)\<rparr>"

definition empty_workbook :: workbook where
  "empty_workbook = \<lparr>SheetNames = [], Sheets = (\<lambda>n. None)\<rparr>"

definition proto_workbook :: workbook where
  "proto_workbook =
     \<lparr>SheetNames = [''Data'', ''__proto__''],
      Sheets = (\<lambda>n. if n = ''Data'' then Some ''d'' else if n = ''__proto__'' then Some ''p''
                    else None)\<rparr>"

definition example_libs :: libs where
  "example_libs =
     \<lparr>createObjectURL = (\<lambda>b. ''blob:local/1''),
      XLSX_read = (\<lambda>bytes. if bytes = ''PK'' then Inr two_sheet_workbook
                         else if bytes = ''PK-empty'' then Inr empty_workbook
                         else if bytes = ''PK-proto'' then Inr proto_workbook
                         else Inl ''Unsupported file''),
      sheet_to_html = (\<lambda>ws i. case ws of None \<Rightarrow> Inl ''no worksheet''
                                 | Some cells \<Rightarrow> Inr (''<table id='' @ i @ ''>'' @ cells @ ''</table>'')),
      Papa_parse = (\<lambda>t. if t = [] then [] else [[''a'', [], ''c''], [''1'']]),
      encodeURIComponent = (\<lambda>u. u)\<rparr>"

definition example_blob :: blob where
  "example_blob = \<lparr>blob_type = ''application/pdf'', blob_bytes = ''%PDF''\<rparr>"


definition example_server :: server_env where
  "example_server =
     \<lparr>URL_protocol = (\<lambda>u. if startsWith u ''http://'' then Some ''http:''
                          else if startsWith u ''https://'' then Some ''https:''
                          else if startsWith u ''ftp://'' then Some ''ftp:''
                          else if startsWith u ''file://'' then Some ''file:''
                          else None),
      node_fetch = (\<lambda>u. if u = ''http://down.example/'' then Inl ''connect ECONNREFUSED''
                        else Inr \<lparr>up_status = 404, up_statusText = ''Not Found'',
                                  up_content_type = Some ''text/html'', up_body = Inr ''gone''\<rparr>),
      puppeteer_content = (\<lambda>u. Inl ''Navigation timeout''),
      mammoth_from_arrayBuffer = (\<lambda>bytes. Inl ''Could not find file in options''),
      mammoth_from_buffer = (\<lambda>bytes. if startsWith bytes ''PK'' then Inr ''<p>Hello</p>''
                                    else Inl ''End of central directory not found''),
      node_encodeURIComponent = (\<lambda>n. n)\<rparr>"

definition docx_upload :: upload_request where
  "docx_upload =
     \<lparr>file_part = Some \<lparr>originalname = ''letter.docx'',
         mimetype = ''application/vnd.openxmlformats-officedocument.wordprocessingml.document'',
         buffer = ''PK-docx-bytes''\<rparr>,
      upload_origin = Some ''http://localhost:3000''\<rparr>"

definition foreign_origin :: "string option" where
  "foreign_origin = Some ''http://evil.example''"

definition broken_docx_upload :: upload_request where
  "broken_docx_upload =
     \<lparr>file_part = Some \<lparr>originalname = ''broken.docx'',
         mimetype = ''application/vnd.openxmlformats-officedocument.wordprocessingml.document'',
         buffer = ''not a zip archive''\<rparr>,
      upload_origin = Some ''http://localhost:3000''\<rparr>"

definition png_upload :: upload_request where
  "png_upload =
     \<lparr>file_part = Some \<lparr>originalname = ''logo.png'', mimetype = ''image/png'',
         buffer = ''PNG-bytes''\<rparr>,
      upload_origin = None\<rparr>"


definition xls_blob :: blob where
  "xls_blob = \<lparr>blob_type = ''application/vnd.ms-excel'', blob_bytes = ''PK''\<rparr>"

definition proto_xls_blob :: blob where
  "proto_xls_blob = \<lparr>blob_type = ''application/vnd.ms-excel'', blob_bytes = ''PK-proto''\<rparr>"


definition csv_blob :: blob where
  "csv_blob = \<lparr>blob_type = ''text/csv'', blob_bytes = ''a,,c''\<rparr>"

definition empty_csv_blob :: blob where
  "empty_csv_blob = \<lparr>blob_type = ''text/csv'', blob_bytes = []\<rparr>"





definition empty_xls_blob :: blob where
  "empty_xls_blob = \<lparr>blob_type = ''application/vnd.ms-excel'', blob_bytes = ''PK-empty''\<rparr>"

definition net_empty_xls :: network where
  "net_empty_xls n req =
     (if req_opts req = Mode_cors then
        Inr \<lparr>status = 200, statusText = ''OK'', header_content_type = None,
             response_blob = Inr empty_xls_blob\<rparr>
      else Inl ''Failed to fetch'')"

definition net_empty_csv :: network where
  "net_empty_csv n req =
     (if req_opts req = Method_GET then
        Inr \<lparr>status = 200, statusText = ''OK'', header_content_type = Some ''text/csv'',
             response_blob = Inr empty_csv_blob\<rparr>
      else Inl ''Failed to fetch'')"


section \<open>Substring tests\<close>




section \<open>The type dispatcher\<close>

lemma handleContentType_run:
  "handleContentType L contentType b st = run_renderer L (spec_dispatch contentType) b st"
  unfolding handleContentType_def run_renderer_def spec_dispatch_def spec_priority_def
  by (simp add: Let_def split: sum.splits list.splits)

text \<open>
  C1. The dispatcher selects by substring, in the priority order PDF, image, spreadsheet,
  CSV, Word/HTML, PowerPoint, else generic download, and the first match wins: whatever
  \<open>handleContentType\<close> does on a content type is what the renderer at the first matching
  entry of the specification's priority list does, and nothing else. The selection depends
  on the content-type string alone.
\<close>

theorem dispatch_priority_order:
  "handleContentType L contentType b st = run_renderer L (spec_dispatch contentType) b st"
  by (rule handleContentType_run)

theorem dispatch_priority_order_witness:
  "spec_dispatch ''text/html; application/vnd.ms-excel'' = R_spreadsheet \<and>
   handleContentType example_libs ''text/html; application/vnd.ms-excel''
       \<lparr>blob_type = [], blob_bytes = ''PK''\<rparr> initial_state =
     Inr (initial_state\<lparr>tableData :=
       \<lparr>html = Some [(''Data'', ''<table id=sheet-Data>d</table>''),
                     (''Notes'', ''<table id=sheet-Notes>n</table>'')],
        activeSheet = Some ''Data''\<rparr>\<rparr>)"
  using dispatch_priority_order [of example_libs "''text/html; application/vnd.ms-excel''"
      "\<lparr>blob_type = [], blob_bytes = ''PK''\<rparr>" initial_state]
  by (simp add: spec_dispatch_def spec_priority_def run_renderer_def example_libs_def
      two_sheet_workbook_def obj_set_def object_keys_def is_array_index_def is_digit_def
      replace_non_alnum_def is_alnum_def)

text \<open>
  C2, as stated, fails: a content type that contains \<open>image/\<close> and also
  \<open>application/pdf\<close> goes to the PDF renderer, which is tested first.
\<close>

theorem image_not_regardless_counterexample:
  "str_includes ''application/pdf; name=image/scan.pdf'' ''image/'' \<and>
   handleContentType example_libs ''application/pdf; name=image/scan.pdf'' example_blob initial_state =
     Inr (initial_state\<lparr>content := Some \<lparr>ctype = PdfT, curl = ''blob:local/1'', cmessage = None\<rparr>\<rparr>) \<and>
   handleContentType example_libs ''application/pdf; name=image/scan.pdf'' example_blob initial_state \<noteq>
     Inr (initial_state\<lparr>content := Some \<lparr>ctype = ImageT, curl = ''blob:local/1'', cmessage = None\<rparr>\<rparr>)"
  by (simp add: handleContentType_def example_libs_def initial_state_def)

text \<open>
  C2, amended. For every content-type string that contains \<open>image/\<close> and does not contain
  \<open>application/pdf\<close>, the dispatcher selects the image renderer, regardless of any other
  substrings present.
\<close>

theorem image_selected_unless_pdf:
  assumes "str_includes contentType ''image/''"
      and "\<not> str_includes contentType ''application/pdf''"
  shows "spec_dispatch contentType = R_image \<and>
         handleContentType L contentType b st =
           Inr (st\<lparr>content := Some \<lparr>ctype = ImageT, curl = createObjectURL L b, cmessage = None\<rparr>\<rparr>)"
  using assms by (simp add: handleContentType_def spec_dispatch_def spec_priority_def)

theorem image_selected_unless_pdf_witness:
  "str_includes ''text/csv; alt=image/png; text/html'' ''image/'' \<and>
   \<not> str_includes ''text/csv; alt=image/png; text/html'' ''application/pdf'' \<and>
   spec_dispatch ''text/csv; alt=image/png; text/html'' = R_image \<and>
   handleContentType example_libs ''text/csv; alt=image/png; text/html'' example_blob initial_state =
     Inr (initial_state\<lparr>content := Some \<lparr>ctype = ImageT, curl = ''blob:local/1'', cmessage = None\<rparr>\<rparr>)"
proof -
  have h1: "str_includes ''text/csv; alt=image/png; text/html'' ''image/''" by simp
  have h2: "\<not> str_includes ''text/csv; alt=image/png; text/html'' ''application/pdf''" by simp
  show ?thesis
    using h1 h2 image_selected_unless_pdf [OF h1 h2, of example_libs example_blob initial_state]
    by (simp add: example_libs_def)
qed


section \<open>The proxy endpoint\<close>

lemma json_fresh:
  "status_json code msg fresh_response =
     \<lparr>res_status = code, res_headers = [''Content-Type'' \<mapsto> ''application/json''],
      res_body = Json_error msg\<rparr>"
  by (simp add: status_json_def fresh_response_def)

lemma foreign_origin_refused: "\<not> origin_allowed foreign_origin"
  by (simp add: foreign_origin_def origin_allowed_def allowedOrigins_def dot_matches_def)

lemma local_origin_allowed: "origin_allowed (Some ''http://localhost:3000'')"
  by (simp add: origin_allowed_def allowedOrigins_def)

lemma no_origin_allowed: "origin_allowed None"
  by (simp add: origin_allowed_def)

text \<open>
  C8, as stated, fails: a request whose \<open>Origin\<close> header is outside the allow-list is
  stopped by the CORS stage and answered with status 500, also when its URL has a scheme
  other than HTTP or HTTPS.
\<close>

theorem proxy_foreign_origin_counterexample:
  "URL_protocol example_server ''ftp://files.example/a.pdf'' = Some ''ftp:'' \<and>
   get_proxy example_server
       \<lparr>query_url = Some ''ftp://files.example/a.pdf'', proxy_origin = foreign_origin\<rparr> =
     \<lparr>res_status = 500, res_headers = [''Content-Type'' \<mapsto> ''application/json''],
      res_body = Json_error ''Internal server error''\<rparr> \<and>
   res_status (get_proxy example_server
       \<lparr>query_url = Some ''ftp://files.example/a.pdf'', proxy_origin = foreign_origin\<rparr>) \<noteq> 400"
  using foreign_origin_refused
  by (simp add: get_proxy_def error_middleware_def json_fresh example_server_def)

text \<open>
  C8, amended. For a request without \<open>Origin\<close> header or with an allowed origin,
  \<open>GET /proxy?url=...\<close> answers every URL that is not HTTP or HTTPS (no URL at all, one
  the URL parser refuses, or one with another scheme) with status 400 and a JSON error
  body, and every failed fetch (the request itself fails, or the target answers with a
  status outside 200..299) with status 500 and a JSON error body. A request with any
  other origin is answered with status 500 and the JSON error body
  \<open>Internal server error\<close>, whatever its URL.
\<close>

theorem proxy_rejects_with_json_error:
  "(\<not> origin_allowed (proxy_origin req) \<longrightarrow>
      res_status (get_proxy E req) = 500 \<and>
      res_body (get_proxy E req) = Json_error ''Internal server error'' \<and>
      res_headers (get_proxy E req) ''Content-Type'' = Some ''application/json'') \<and>
   (origin_allowed (proxy_origin req) \<and> (query_url req = None \<or> query_url req = Some []) \<longrightarrow>
      res_status (get_proxy E req) = 400 \<and>
      res_body (get_proxy E req) = Json_error ''URL parameter is required'' \<and>
      res_headers (get_proxy E req) ''Content-Type'' = Some ''application/json'') \<and>
   (origin_allowed (proxy_origin req) \<and> query_url req = Some url \<and> url \<noteq> [] \<and>
    URL_protocol E url = None \<longrightarrow>
      res_status (get_proxy E req) = 400 \<and>
      res_body (get_proxy E req) = Json_error ''Invalid URL format'' \<and>
      res_headers (get_proxy E req) ''Content-Type'' = Some ''application/json'') \<and>
   (origin_allowed (proxy_origin req) \<and> query_url req = Some url \<and> url \<noteq> [] \<and>
    URL_protocol E url = Some p \<and> p \<noteq> ''http:'' \<and> p \<noteq> ''https:'' \<longrightarrow>
      res_status (get_proxy E req) = 400 \<and>
      res_body (get_proxy E req) = Json_error ''Only HTTP/HTTPS URLs are allowed'' \<and>
      res_headers (get_proxy E req) ''Content-Type'' = Some ''application/json'') \<and>
   (origin_allowed (proxy_origin req) \<and> query_url req = Some url \<and> url \<noteq> [] \<and>
    URL_protocol E url = Some p \<and> (p = ''http:'' \<or> p = ''https:'') \<and>
    node_fetch E url = Inl e \<longrightarrow>
      res_status (get_proxy E req) = 500 \<and>
      res_body (get_proxy E req) = Json_error (''Error fetching URL: '' @ e) \<and>
      res_headers (get_proxy E req) ''Content-Type'' = Some ''application/json'') \<and>
   (origin_allowed (proxy_origin req) \<and> query_url req = Some url \<and> url \<noteq> [] \<and>
    URL_protocol E url = Some p \<and> (p = ''http:'' \<or> p = ''https:'') \<and>
    node_fetch E url = Inr r \<and> (up_status r < 200 \<or> 299 < up_status r) \<longrightarrow>
      res_status (get_proxy E req) = 500 \<and>
      res_body (get_proxy E req) =
        Json_error (''Error fetching URL: Failed to fetch URL: '' @ up_statusText r) \<and>
      res_headers (get_proxy E req) ''Content-Type'' = Some ''application/json'')"
  by (auto simp: get_proxy_def proxy_handler_def proxy_try_def upstream_ok_def json_fresh
      error_middleware_def)

theorem proxy_rejects_with_json_error_witness:
  "get_proxy example_server
       \<lparr>query_url = Some ''http://site.example/'', proxy_origin = foreign_origin\<rparr> =
     \<lparr>res_status = 500, res_headers = [''Content-Type'' \<mapsto> ''application/json''],
      res_body = Json_error ''Internal server error''\<rparr> \<and>
   get_proxy example_server
       \<lparr>query_url = Some ''ftp://files.example/a.pdf'', proxy_origin = Some ''http://localhost:3000''\<rparr> =
     \<lparr>res_status = 400, res_headers = [''Content-Type'' \<mapsto> ''application/json''],
      res_body = Json_error ''Only HTTP/HTTPS URLs are allowed''\<rparr> \<and>
   get_proxy example_server \<lparr>query_url = Some ''not a url'', proxy_origin = None\<rparr> =
     \<lparr>res_status = 400, res_headers = [''Content-Type'' \<mapsto> ''application/json''],
      res_body = Json_error ''Invalid URL format''\<rparr> \<and>
   get_proxy example_server \<lparr>query_url = Some ''http://down.example/'', proxy_origin = None\<rparr> =
     \<lparr>res_status = 500, res_headers = [''Content-Type'' \<mapsto> ''application/json''],
      res_body = Json_error ''Error fetching URL: connect ECONNREFUSED''\<rparr> \<and>
   get_proxy example_server
       \<lparr>query_url = Some ''https://site.example/missing'', proxy_origin = Some ''http://localhost:3000''\<rparr> =
     \<lparr>res_status = 500, res_headers = [''Content-Type'' \<mapsto> ''application/json''],
      res_body = Json_error ''Error fetching URL: Failed to fetch URL: Not Found''\<rparr>"
proof -
  note t = proxy_rejects_with_json_error
  show ?thesis
    using
      t [where req = "\<lparr>query_url = Some ''http://site.example/'', proxy_origin = foreign_origin\<rparr>"
          and E = example_server]
      t [where req = "\<lparr>query_url = Some ''ftp://files.example/a.pdf'', proxy_origin = Some ''http://localhost:3000''\<rparr>"
          and E = example_server and url = "''ftp://files.example/a.pdf''" and p = "''ftp:''"]
      foreign_origin_refused local_origin_allowed no_origin_allowed
    by (simp add: get_proxy_def proxy_handler_def proxy_try_def upstream_ok_def json_fresh
        error_middleware_def example_server_def)
qed


section \<open>The upload endpoint\<close>

lemma allowed_docx_all:
  "list_all (\<lambda>t. str_includes t ''application/vnd.openxmlformats-officedocument.wordprocessingml.document''
         \<longleftrightarrow> t = ''application/vnd.openxmlformats-officedocument.wordprocessingml.document'') allowedTypes"
  unfolding allowedTypes_def by simp

lemma allowed_docx_iff:
  assumes "t \<in> set allowedTypes"
  shows "str_includes t ''application/vnd.openxmlformats-officedocument.wordprocessingml.document''
         \<longleftrightarrow> t = ''application/vnd.openxmlformats-officedocument.wordprocessingml.document''"
  using assms allowed_docx_all unfolding list_all_iff by blast

text \<open>
  C9, as stated, fails twice over: a \<open>.docx\<close> upload from an origin outside the allow-list
  is stopped by the CORS stage and answered with status 500 and a JSON error, and a
  \<open>.docx\<close> upload from an allowed origin that the converter cannot convert is answered
  with status 500 and a JSON error as well; neither answer is \<open>text/html\<close>.
\<close>

theorem upload_docx_not_html_counterexample:
  "post_upload example_server (docx_upload\<lparr>upload_origin := foreign_origin\<rparr>) =
     ([], \<lparr>res_status = 500, res_headers = [''Content-Type'' \<mapsto> ''application/json''],
           res_body = Json_error ''Internal server error''\<rparr>) \<and>
   res_status (snd (post_upload example_server broken_docx_upload)) = 500 \<and>
   res_body (snd (post_upload example_server broken_docx_upload)) =
     Json_error ''Error processing file: End of central directory not found'' \<and>
   res_headers (snd (post_upload example_server broken_docx_upload)) ''Content-Type'' =
     Some ''application/json''"
  using foreign_origin_refused local_origin_allowed
  by (simp add: post_upload_def upload_single_def upload_handler_def error_middleware_def
      json_fresh example_server_def docx_upload_def broken_docx_upload_def allowedTypes_def
      fileSize_limit_def setHeader_def status_json_def fresh_response_def)

text \<open>
  C9, amended. An upload from an allowed origin (no \<open>Origin\<close> header, or an allow-listed
  one) of a file within the size limit whose MIME type is that of a \<open>.docx\<close> document,
  and which the converter converts, is answered with content type \<open>text/html\<close> and the
  converted markup as body, not the uploaded bytes; such an upload of any other
  allow-listed type is answered with the uploaded bytes under its own MIME type. An upload
  from any other origin is answered with status 500 and a JSON error, and a \<open>.docx\<close>
  upload the converter fails on with status 500 and a JSON error that carries the
  converter's message.
\<close>

theorem upload_docx_converted_others_passed:
  "(\<not> origin_allowed (upload_origin req) \<longrightarrow>
      post_upload E req =
        ([], \<lparr>res_status = 500, res_headers = [''Content-Type'' \<mapsto> ''application/json''],
              res_body = Json_error ''Internal server error''\<rparr>)) \<and>
   (origin_allowed (upload_origin req) \<and> file_part req = Some f \<and>
    mimetype f = ''application/vnd.openxmlformats-officedocument.wordprocessingml.document'' \<and>
    length (buffer f) \<le> fileSize_limit \<and> mammoth_from_buffer E (buffer f) = Inr h \<longrightarrow>
      fst (post_upload E req) = [Converted (buffer f)] \<and>
      res_status (snd (post_upload E req)) = 200 \<and>
      res_headers (snd (post_upload E req)) ''Content-Type'' = Some ''text/html'' \<and>
      res_body (snd (post_upload E req)) = Sent_text h) \<and>
   (origin_allowed (upload_origin req) \<and> file_part req = Some f \<and>
    mimetype f = ''application/vnd.openxmlformats-officedocument.wordprocessingml.document'' \<and>
    length (buffer f) \<le> fileSize_limit \<and> mammoth_from_buffer E (buffer f) = Inl e \<longrightarrow>
      fst (post_upload E req) = [Converted (buffer f)] \<and>
      res_status (snd (post_upload E req)) = 500 \<and>
      res_headers (snd (post_upload E req)) ''Content-Type'' = Some ''application/json'' \<and>
      res_body (snd (post_upload E req)) = Json_error (''Error processing file: '' @ e)) \<and>
   (origin_allowed (upload_origin req) \<and> file_part req = Some f \<and>
    mimetype f \<in> set allowedTypes \<and>
    mimetype f \<noteq> ''application/vnd.openxmlformats-officedocument.wordprocessingml.document'' \<and>
    length (buffer f) \<le> fileSize_limit \<longrightarrow>
      fst (post_upload E req) = [] \<and>
      res_status (snd (post_upload E req)) = 200 \<and>
      res_headers (snd (post_upload E req)) ''Content-Type'' = Some (mimetype f) \<and>
      res_body (snd (post_upload E req)) = Sent_bytes (buffer f))"
proof -
  have docx: "''application/vnd.openxmlformats-officedocument.wordprocessingml.document''
                \<in> set allowedTypes"
    by (simp add: allowedTypes_def)
  have inc: "str_includes ''application/vnd.openxmlformats-officedocument.wordprocessingml.document''
               ''application/vnd.openxmlformats-officedocument.wordprocessingml.document''"
    using allowed_docx_iff [OF docx] by simp
  have other: "mimetype f \<in> set allowedTypes \<Longrightarrow>
        mimetype f \<noteq> ''application/vnd.openxmlformats-officedocument.wordprocessingml.document'' \<Longrightarrow>
        \<not> str_includes (mimetype f)
            ''application/vnd.openxmlformats-officedocument.wordprocessingml.document''"
    using allowed_docx_iff by blast
  show ?thesis
    using docx inc other
    by (auto simp: post_upload_def upload_single_def upload_handler_def setHeader_def send_def
        fresh_response_def status_json_def error_middleware_def)
qed

theorem upload_docx_converted_others_passed_witness:
  "post_upload example_server docx_upload =
     ([Converted ''PK-docx-bytes''],
      \<lparr>res_status = 200,
       res_headers =
         [''Access-Control-Allow-Origin'' \<mapsto> ''http://localhost:3000'',
          ''Content-Disposition'' \<mapsto> ''inline; filename='' @ [CHR 0x22] @ ''letter.docx'' @ [CHR 0x22],
          ''Content-Type'' \<mapsto> ''text/html''],
       res_body = Sent_text ''<p>Hello</p>''\<rparr>) \<and>
   post_upload example_server png_upload =
     ([],
      \<lparr>res_status = 200,
       res_headers =
         [''Access-Control-Allow-Origin'' \<mapsto> ''*'',
          ''Content-Disposition'' \<mapsto> ''inline; filename='' @ [CHR 0x22] @ ''logo.png'' @ [CHR 0x22],
          ''Content-Type'' \<mapsto> ''image/png''],
       res_body = Sent_bytes ''PNG-bytes''\<rparr>) \<and>
   post_upload example_server (png_upload\<lparr>upload_origin := foreign_origin\<rparr>) =
     ([], \<lparr>res_status = 500, res_headers = [''Content-Type'' \<mapsto> ''application/json''],
           res_body = Json_error ''Internal server error''\<rparr>)"
proof -
  note t = upload_docx_converted_others_passed
  have o: "\<not> origin_allowed (upload_origin (png_upload\<lparr>upload_origin := foreign_origin\<rparr>))"
    using foreign_origin_refused by simp
  show ?thesis
    using t [where req = "png_upload\<lparr>upload_origin := foreign_origin\<rparr>" and E = example_server] o
      t [where req = docx_upload and E = example_server and h = "''<p>Hello</p>''"
          and f = "\<lparr>originalname = ''letter.docx'',
                   mimetype = ''application/vnd.openxmlformats-officedocument.wordprocessingml.document'',
                   buffer = ''PK-docx-bytes''\<rparr>"]
      t [where req = png_upload and E = example_server
          and f = "\<lparr>originalname = ''logo.png'', mimetype = ''image/png'', buffer = ''PNG-bytes''\<rparr>"]
      local_origin_allowed no_origin_allowed
    by (simp add: post_upload_def upload_single_def upload_handler_def setHeader_def send_def
        fresh_response_def example_server_def docx_upload_def png_upload_def or_default_def
        allowedTypes_def fileSize_limit_def)
qed

text \<open>
  C10, as stated, fails: a \<open>POST /upload\<close> without a file part from an origin outside the
  allow-list is stopped by the CORS stage and answered with status 500, not 400.
\<close>

theorem upload_without_file_counterexample:
  "file_part \<lparr>file_part = None, upload_origin = foreign_origin\<rparr> = None \<and>
   post_upload example_server \<lparr>file_part = None, upload_origin = foreign_origin\<rparr> =
     ([], \<lparr>res_status = 500, res_headers = [''Content-Type'' \<mapsto> ''application/json''],
           res_body = Json_error ''Internal server error''\<rparr>)"
  using foreign_origin_refused
  by (simp add: post_upload_def error_middleware_def json_fresh)

text \<open>
  C10, amended. A \<open>POST /upload\<close> without a file part, sent without \<open>Origin\<close> header or
  from an allowed origin, is answered with status 400 and the JSON body
  \<open>{"error": "No file uploaded"}\<close>; sent from any other origin it is answered with status
  500 and the JSON body \<open>{"error": "Internal server error"}\<close>. In both cases no conversion
  is started and nothing is passed through.
\<close>

theorem upload_without_file:
  assumes "file_part req = None"
  shows "post_upload E req =
           ([], \<lparr>res_status = (if origin_allowed (upload_origin req) then 400 else 500),
                 res_headers = [''Content-Type'' \<mapsto> ''application/json''],
                 res_body = Json_error (if origin_allowed (upload_origin req) then ''No file uploaded''
                                        else ''Internal server error'')\<rparr>)"
  using assms
  by (simp add: post_upload_def upload_single_def upload_handler_def json_fresh
      error_middleware_def)

theorem upload_without_file_witness:
  "file_part \<lparr>file_part = None, upload_origin = Some ''http://localhost:3000''\<rparr> = None \<and>
   post_upload example_server \<lparr>file_part = None, upload_origin = Some ''http://localhost:3000''\<rparr> =
     ([], \<lparr>res_status = 400, res_headers = [''Content-Type'' \<mapsto> ''application/json''],
           res_body = Json_error ''No file uploaded''\<rparr>)"
  using upload_without_file [of "\<lparr>file_part = None, upload_origin = Some ''http://localhost:3000''\<rparr>" example_server]
    local_origin_allowed
  by simp


section \<open>Objects and their keys\<close>

lemma map_fst_obj_set:
  "map fst (obj_set obj k v) =
     (if k = ''__proto__'' \<or> k \<in> set (map fst obj) then map fst obj else map fst obj @ [k])"
proof -
  have "map fst (map (\<lambda>(k', v'). if k' = k then (k', v) else (k', v')) obj) = map fst obj"
    by (induction obj) auto
  then show ?thesis by (simp add: obj_set_def)
qed

lemma forEach_sheet_keys:
  assumes "forEach_sheet L wb names obj = Inr sheets" and "distinct (map fst obj)"
  shows "distinct (map fst sheets) \<and>
         set (map fst sheets) = set (map fst obj) \<union> (set names - {''__proto__''})"
  using assms
proof (induction names arbitrary: obj)
  case Nil
  then show ?case by simp
next
  case (Cons n names)
  from Cons.prems(1) obtain h where
    step: "forEach_sheet L wb names (obj_set obj n h) = Inr sheets"
    by (auto split: sum.splits)
  have d: "distinct (map fst (obj_set obj n h))"
    using Cons.prems(2) by (simp add: map_fst_obj_set)
  from Cons.IH [OF step d] show ?case
    by (auto simp: map_fst_obj_set split: if_splits)
qed

lemma length_object_keys: "length (object_keys obj) = length obj"
proof -
  have "length (filter is_array_index (map fst obj)) +
        length (filter (\<lambda>k. \<not> is_array_index k) (map fst obj)) = length (map fst obj)"
    by (rule sum_length_filter_compl)
  then show ?thesis by (simp add: object_keys_def)
qed

lemma set_object_keys: "set (object_keys obj) = set (map fst obj)"
  by (auto simp: object_keys_def)

lemma handleSheetChange_frame:
  "ui (handleSheetChange v w) = (ui w)\<lparr>tableData := (tableData (ui w))\<lparr>activeSheet := Some v\<rparr>\<rparr> \<and>
   fetches (handleSheetChange v w) = fetches w"
  by (simp add: handleSheetChange_def set_state_def)

lemma spreadsheet_branch:
  assumes "\<not> str_includes contentType ''application/pdf''"
      and "\<not> str_includes contentType ''image/''"
      and "str_includes contentType ''application/vnd.openxmlformats-officedocument.spreadsheetml.sheet''
           \<or> str_includes contentType ''application/vnd.ms-excel''"
  shows "handleContentType L contentType b st =
           (case XLSX_read L (blob_bytes b) of
              Inl e \<Rightarrow> Inl e
            | Inr wb \<Rightarrow>
                (case forEach_sheet L wb (SheetNames wb) [] of
                   Inl e \<Rightarrow> Inl e
                 | Inr sheets \<Rightarrow>
                     if object_keys sheets = [] then Inl ''No valid sheets found in the Excel file''
                     else Inr (st\<lparr>tableData :=
                            \<lparr>html = Some sheets, activeSheet = Some (hd (object_keys sheets))\<rparr>\<rparr>)))"
  using assms by (auto simp: handleContentType_def split: sum.splits)

text \<open>
  What the spreadsheet branch and the sheet switch do in general. The mapping \<open>sheets\<close>
  has one entry per distinct sheet name of the workbook other than \<open>__proto__\<close>; the
  selector of the displayed table offers exactly the keys of the mapping; switching the
  active sheet replaces \<open>activeSheet\<close> and nothing else, and issues no request.
\<close>

lemma sheet_selector_and_switch:
  assumes "\<not> str_includes contentType ''application/pdf''"
      and "\<not> str_includes contentType ''image/''"
      and "str_includes contentType ''application/vnd.openxmlformats-officedocument.spreadsheetml.sheet''
           \<or> str_includes contentType ''application/vnd.ms-excel''"
      and "error st = None"
      and "handleContentType L contentType b st = Inr (ui w)"
  shows "\<exists>wb sheets.
           XLSX_read L (blob_bytes b) = Inr wb \<and>
           forEach_sheet L wb (SheetNames wb) [] = Inr sheets \<and>
           html (tableData (ui w)) = Some sheets \<and>
           length sheets = card (set (SheetNames wb) - {''__proto__''}) \<and>
           length (select_options (render (ui w))) = length sheets \<and>
           ui (handleSheetChange v w) =
             (ui w)\<lparr>tableData := \<lparr>html = Some sheets, activeSheet = Some v\<rparr>\<rparr> \<and>
           fetches (handleSheetChange v w) = fetches w \<and>
           length (select_options (render (ui (handleSheetChange v w)))) = length sheets"
proof -
  from assms(5) spreadsheet_branch [OF assms(1-3), of L b st]
  obtain wb sheets where wb: "XLSX_read L (blob_bytes b) = Inr wb"
    and sh: "forEach_sheet L wb (SheetNames wb) [] = Inr sheets"
    and ne: "object_keys sheets \<noteq> []"
    and st': "ui w = st\<lparr>tableData :=
                \<lparr>html = Some sheets, activeSheet = Some (hd (object_keys sheets))\<rparr>\<rparr>"
    by (auto split: sum.splits if_splits)
  from forEach_sheet_keys [OF sh] have
    keys: "distinct (map fst sheets)" "set (map fst sheets) = set (SheetNames wb) - {''__proto__''}"
    by simp_all
  have "card (set (map fst sheets)) = length sheets"
    using distinct_card [OF keys(1)] by simp
  then have n: "length sheets = card (set (SheetNames wb) - {''__proto__''})"
    using keys(2) by simp
  have r1: "length (select_options (render (ui w))) = length sheets"
    using assms(4) by (simp add: st' render_def truthy_def select_options_def length_object_keys)
  have u: "ui (handleSheetChange v w) =
             (ui w)\<lparr>tableData := \<lparr>html = Some sheets, activeSheet = Some v\<rparr>\<rparr>"
    by (simp add: handleSheetChange_def set_state_def st')
  have r2: "length (select_options (render (ui (handleSheetChange v w)))) = length sheets"
    using assms(4) by (simp add: u st' render_def truthy_def select_options_def length_object_keys)
  from wb sh n r1 u r2 show ?thesis
    by (simp add: st' handleSheetChange_def set_state_def)
qed

lemma sheet_selector_and_switch_example:
  "handleContentType example_libs ''application/vnd.ms-excel'' xls_blob initial_state =
     Inr (initial_state\<lparr>tableData :=
       \<lparr>html = Some [(''Data'', ''<table id=sheet-Data>d</table>''),
                     (''Notes'', ''<table id=sheet-Notes>n</table>'')],
        activeSheet = Some ''Data''\<rparr>\<rparr>) \<and>
   select_options (render (initial_state\<lparr>tableData :=
       \<lparr>html = Some [(''Data'', ''<table id=sheet-Data>d</table>''),
                     (''Notes'', ''<table id=sheet-Notes>n</table>'')],
        activeSheet = Some ''Data''\<rparr>\<rparr>)) = [''Data'', ''Notes''] \<and>
   handleSheetChange ''Notes''
     \<lparr>ui = initial_state\<lparr>tableData :=
       \<lparr>html = Some [(''Data'', ''<table id=sheet-Data>d</table>''),
                     (''Notes'', ''<table id=sheet-Notes>n</table>'')],
        activeSheet = Some ''Data''\<rparr>\<rparr>,
      fetches = [\<lparr>req_url = ''blob:local/0'', req_opts = Mode_cors\<rparr>], rendered = []\<rparr> =
     \<lparr>ui = initial_state\<lparr>tableData :=
       \<lparr>html = Some [(''Data'', ''<table id=sheet-Data>d</table>''),
                     (''Notes'', ''<table id=sheet-Notes>n</table>'')],
        activeSheet = Some ''Notes''\<rparr>\<rparr>,
      fetches = [\<lparr>req_url = ''blob:local/0'', req_opts = Mode_cors\<rparr>],
      rendered = [initial_state\<lparr>tableData :=
       \<lparr>html = Some [(''Data'', ''<table id=sheet-Data>d</table>''),
                     (''Notes'', ''<table id=sheet-Notes>n</table>'')],
        activeSheet = Some ''Notes''\<rparr>\<rparr>]\<rparr>"
proof -
  let ?st = "initial_state\<lparr>tableData :=
       \<lparr>html = Some [(''Data'', ''<table id=sheet-Data>d</table>''),
                     (''Notes'', ''<table id=sheet-Notes>n</table>'')],
        activeSheet = Some ''Data''\<rparr>\<rparr>"
  let ?w = "\<lparr>ui = ?st, fetches = [\<lparr>req_url = ''blob:local/0'', req_opts = Mode_cors\<rparr>],
             rendered = []\<rparr>"
  have h1: "\<not> str_includes ''application/vnd.ms-excel'' ''application/pdf''" by simp
  have h2: "\<not> str_includes ''application/vnd.ms-excel'' ''image/''" by simp
  have h3: "str_includes ''application/vnd.ms-excel''
              ''application/vnd.openxmlformats-officedocument.spreadsheetml.sheet''
            \<or> str_includes ''application/vnd.ms-excel'' ''application/vnd.ms-excel''" by simp
  have h4: "error initial_state = None" by (simp add: initial_state_def)
  have h5: "handleContentType example_libs ''application/vnd.ms-excel'' xls_blob initial_state =
              Inr (ui ?w)"
    by (simp add: handleContentType_def example_libs_def xls_blob_def two_sheet_workbook_def
        obj_set_def object_keys_def is_array_index_def is_digit_def replace_non_alnum_def
        is_alnum_def)
  have r: "select_options (render ?st) = [''Data'', ''Notes'']"
    by (simp add: render_def select_options_def initial_state_def truthy_def object_keys_def
        is_array_index_def is_digit_def)
  show ?thesis
    using sheet_selector_and_switch [OF h1 h2 h3 h4 h5, of "''Notes''"] h5 r
    by (simp add: handleSheetChange_def set_state_def)
qed


text \<open>
  C3. A spreadsheet with N sheets should give a selector with N options. The branch
  collects the sheets in a plain object, and the assignment \<open>sheets[sheetName] = html\<close>
  creates no property when the sheet is named \<open>__proto__\<close>: for the workbook with the two
  sheets \<open>Data\<close> and \<open>__proto__\<close> the selector offers the single option \<open>Data\<close>.
\<close>

theorem proto_sheet_dropped:
  "XLSX_read example_libs (blob_bytes proto_xls_blob) = Inr proto_workbook \<and>
   SheetNames proto_workbook = [''Data'', ''__proto__''] \<and>
   handleContentType example_libs ''application/vnd.ms-excel'' proto_xls_blob initial_state =
     Inr (initial_state\<lparr>tableData :=
       \<lparr>html = Some [(''Data'', ''<table id=sheet-Data>d</table>'')],
        activeSheet = Some ''Data''\<rparr>\<rparr>) \<and>
   select_options (render (initial_state\<lparr>tableData :=
       \<lparr>html = Some [(''Data'', ''<table id=sheet-Data>d</table>'')],
        activeSheet = Some ''Data''\<rparr>\<rparr>)) = [''Data'']"
  by (simp add: handleContentType_def example_libs_def proto_xls_blob_def proto_workbook_def
      obj_set_def object_keys_def is_array_index_def is_digit_def replace_non_alnum_def
      is_alnum_def render_def select_options_def initial_state_def truthy_def)


section \<open>Decimal numerals and the CSV table\<close>

lemma mod10_disj:
  fixes d :: nat
  shows "d mod 10 = 0 \<or> d mod 10 = 1 \<or> d mod 10 = 2 \<or> d mod 10 = 3 \<or> d mod 10 = 4 \<or>
         d mod 10 = 5 \<or> d mod 10 = 6 \<or> d mod 10 = 7 \<or> d mod 10 = 8 \<or> d mod 10 = 9"
  by presburger

lemma digit_val_digit_char: "digit_val (digit_char d) = d mod 10"
  using mod10_disj [of d] unfolding digit_val_def digit_char_def
  by (elim disjE) simp_all

lemma is_digit_digit_char: "is_digit (digit_char d)"
  using mod10_disj [of d] unfolding is_digit_def digit_char_def
  by (elim disjE) simp_all

lemma numeral_val_snoc: "numeral_val (s @ [c]) = 10 * numeral_val s + digit_val c"
  by (simp add: numeral_val_def)

lemma numeral_val_toString_nat: "numeral_val (toString_nat n) = n"
proof (induction n rule: toString_nat.induct)
  case (1 n)
  show ?case
  proof (cases "n < 10")
    case True
    then show ?thesis
      by (simp add: toString_nat.simps [of n] numeral_val_def digit_val_digit_char)
  next
    case False
    with "1" have "numeral_val (toString_nat (n div 10)) = n div 10" by simp
    with False show ?thesis
      by (simp add: toString_nat.simps [of n] numeral_val_snoc digit_val_digit_char)
  qed
qed

lemma toString_nat_inj: "toString_nat i = toString_nat j \<longleftrightarrow> i = j"
  by (metis numeral_val_toString_nat)

lemma toString_nat_digits: "list_all is_digit (toString_nat n)"
proof (induction n rule: toString_nat.induct)
  case (1 n)
  show ?case
  proof (cases "n < 10")
    case True
    then show ?thesis by (simp add: toString_nat.simps [of n] is_digit_digit_char)
  next
    case False
    with "1" show ?thesis by (simp add: toString_nat.simps [of n] is_digit_digit_char)
  qed
qed

lemma toString_nat_not_proto: "toString_nat n \<noteq> ''__proto__''"
proof
  assume "toString_nat n = ''__proto__''"
  with toString_nat_digits [of n] have "list_all is_digit ''__proto__''" by simp
  then show False by (simp add: is_digit_def)
qed

lemma map_of_update_existing:
  "map_of (map (\<lambda>(a, b). if a = k then (a, v) else (a, b)) obj) k' =
     (if k' = k then map_option (\<lambda>_. v) (map_of obj k) else map_of obj k')"
  by (induction obj) auto

lemma map_of_obj_set:
  assumes "k \<noteq> ''__proto__''"
  shows "map_of (obj_set obj k v) k' = (if k' = k then Some v else map_of obj k')"
proof (cases "k \<in> set (map fst obj)")
  case True
  then obtain y where "map_of obj k = Some y"
    by (metis map_of_eq_None_iff not_None_eq set_map)
  with assms True show ?thesis
    unfolding obj_set_def by (simp only: if_False if_True map_of_update_existing option.map)
next
  case False
  then have "map_of obj k = None" by (simp add: map_of_eq_None_iff)
  with assms False show ?thesis
    unfolding obj_set_def by (simp only: if_False map_of_append) (auto simp: map_add_def split: option.splits)
qed

lemma fold_row_lookup:
  assumes "\<forall>i<length cols. key (cols ! i) = toString_nat (n + i)"
  shows "map_of (fold (\<lambda>(colIndex, col) obj. obj_set obj (key col) (csv_cell row colIndex))
                  (enumerate n cols) obj) (toString_nat j) =
         (if n \<le> j \<and> j < n + length cols then Some (csv_cell row j)
          else map_of obj (toString_nat j))"
  using assms
proof (induction cols arbitrary: n obj)
  case Nil
  then show ?case by auto
next
  case (Cons c cs)
  from Cons.prems have k0: "key c = toString_nat n" by force
  from Cons.prems have ks: "\<forall>i<length cs. key (cs ! i) = toString_nat (Suc n + i)" by force
  show ?case
    using Cons.IH [OF ks, of "obj_set obj (key c) (csv_cell row n)"]
    by (auto simp: k0 map_of_obj_set toString_nat_not_proto toString_nat_inj)
qed

lemma csv_columns_nth:
  assumes "i < length header_row"
  shows "csv_columns header_row ! i =
           \<lparr>key = toString_nat i, name = spec_column_name (i + 1) (header_row ! i)\<rparr>"
  using assms by (simp add: csv_columns_def spec_column_name_def nth_enumerate_eq)

lemma length_csv_columns: "length (csv_columns header_row) = length header_row"
  by (simp add: csv_columns_def)

lemma csv_cell_spec: "csv_cell row i = (if i < length row then row ! i else [])"
  by (simp add: csv_cell_def)

lemma csv_row_lookup:
  assumes "i < length header_row"
  shows "obj_get (csv_row_obj (csv_columns header_row) row) (key (csv_columns header_row ! i)) =
           Some (if i < length row then row ! i else [])"
proof -
  have "\<forall>i<length (csv_columns header_row). key (csv_columns header_row ! i) = toString_nat (0 + i)"
    by (simp add: length_csv_columns csv_columns_nth)
  from fold_row_lookup [OF this, of row "[]" i] assms show ?thesis
    by (simp add: obj_get_def csv_row_obj_def csv_columns_nth length_csv_columns csv_cell_spec)
qed

lemma csv_head_cells:
  "map (\<lambda>col. ''<th>'' @ name col @ ''</th>'') (csv_columns header_row) =
   map (\<lambda>i. ''<th>'' @ spec_column_name (i + 1) (header_row ! i) @ ''</th>'') [0..<length header_row]"
  by (rule nth_equalityI) (simp_all add: length_csv_columns csv_columns_nth)

lemma csv_row_cells:
  "map (\<lambda>col. ''<td>'' @ template_text (obj_get (csv_row_obj (csv_columns header_row) row) (key col)) @ ''</td>'')
       (csv_columns header_row) =
   map (\<lambda>cell. ''<td>'' @ cell @ ''</td>'') (spec_row_cells (length header_row) row)"
  by (rule nth_equalityI)
     (simp_all add: length_csv_columns spec_row_cells_def csv_row_lookup template_text_def)

lemma csv_html_spec: "csv_html (header_row # data_rows) = spec_csv_table header_row data_rows"
  unfolding csv_html_def spec_csv_table_def Let_def
  by (simp only: list.sel map_map comp_def csv_head_cells csv_row_cells)

text \<open>
  C5. On the CSV branch with a header row and any data rows, no error is raised and the
  table is the one the specification describes: a data row shorter than the header row
  gets empty cells in the missing positions, and an empty header cell at position \<open>N\<close>
  (counting from one) is named \<open>Column N\<close>.
\<close>

theorem csv_short_rows_and_missing_headers:
  assumes "\<not> str_includes contentType ''application/pdf''"
      and "\<not> str_includes contentType ''image/''"
      and "\<not> str_includes contentType ''application/vnd.openxmlformats-officedocument.spreadsheetml.sheet''"
      and "\<not> str_includes contentType ''application/vnd.ms-excel''"
      and "str_includes contentType ''text/csv''"
      and "Papa_parse L (blob_bytes b) = header_row # data_rows"
  shows "handleContentType L contentType b st =
           Inr (st\<lparr>tableData :=
                  \<lparr>html = Some [(''Sheet1'', spec_csv_table header_row data_rows)],
                   activeSheet = Some ''Sheet1''\<rparr>\<rparr>) \<and>
         (\<forall>row \<in> set data_rows. \<forall>i. length row \<le> i \<and> i < length header_row \<longrightarrow>
            spec_row_cells (length header_row) row ! i = []) \<and>
         (\<forall>i < length header_row. header_row ! i = [] \<longrightarrow>
            spec_column_name (i + 1) (header_row ! i) = ''Column '' @ toString_nat (i + 1))"
proof -
  have "handleContentType L contentType b st =
           Inr (st\<lparr>tableData :=
                  \<lparr>html = Some [(''Sheet1'', csv_html (header_row # data_rows))],
                   activeSheet = Some ''Sheet1''\<rparr>\<rparr>)"
    using assms by (simp add: handleContentType_def)
  then show ?thesis
    by (simp add: csv_html_spec spec_row_cells_def spec_column_name_def)
qed

lemma example_table:
  "spec_csv_table [''a'', [], ''c''] [[''1'']] =
     [CHR 0x0A] @ ''          <table border='' @ [CHR 0x22] @ ''1'' @ [CHR 0x22] @ ''>'' @
     [CHR 0x0A] @ ''            <thead><tr><th>a</th><th>Column 2</th><th>c</th></tr></thead>'' @
     [CHR 0x0A] @ ''            <tbody><tr><td>1</td><td></td><td></td></tr></tbody>'' @
     [CHR 0x0A] @ ''          </table>'' @
     [CHR 0x0A] @ ''        ''"
  by code_simp

theorem csv_short_rows_and_missing_headers_witness:
  "Papa_parse example_libs (blob_bytes csv_blob) = [''a'', [], ''c''] # [[''1'']] \<and>
   handleContentType example_libs ''text/csv; charset=utf-8'' csv_blob initial_state =
     Inr (initial_state\<lparr>tableData :=
       \<lparr>html = Some [(''Sheet1'',
          [CHR 0x0A] @ ''          <table border='' @ [CHR 0x22] @ ''1'' @ [CHR 0x22] @ ''>'' @
          [CHR 0x0A] @ ''            <thead><tr><th>a</th><th>Column 2</th><th>c</th></tr></thead>'' @
          [CHR 0x0A] @ ''            <tbody><tr><td>1</td><td></td><td></td></tr></tbody>'' @
          [CHR 0x0A] @ ''          </table>'' @
          [CHR 0x0A] @ ''        '')],
        activeSheet = Some ''Sheet1''\<rparr>\<rparr>)"
proof -
  have h1: "\<not> str_includes ''text/csv; charset=utf-8'' ''application/pdf''" by simp
  have h2: "\<not> str_includes ''text/csv; charset=utf-8'' ''image/''" by simp
  have h3: "\<not> str_includes ''text/csv; charset=utf-8''
              ''application/vnd.openxmlformats-officedocument.spreadsheetml.sheet''" by simp
  have h4: "\<not> str_includes ''text/csv; charset=utf-8'' ''application/vnd.ms-excel''" by simp
  have h5: "str_includes ''text/csv; charset=utf-8'' ''text/csv''" by simp
  have h6: "Papa_parse example_libs (blob_bytes csv_blob) = [''a'', [], ''c''] # [[''1'']]"
    by (simp add: example_libs_def csv_blob_def)
  show ?thesis
    using csv_short_rows_and_missing_headers [OF h1 h2 h3 h4 h5 h6, of initial_state] h6
    by (simp only: example_table)
qed


section \<open>Fetch cycles\<close>

lemma reset_state_initial: "reset_state st = initial_state"
  by (cases st) (simp add: reset_state_def initial_state_def)


lemma try_block_outcome:
  "try_block L net url w =
     (case fetch_outcome L net (length (fetches w)) url of
        Inl e \<Rightarrow> (Some e, w\<lparr>fetches := fetches w @ [first_request L url]\<rparr>)
      | Inr (ct, b) \<Rightarrow>
          (case handleContentType L ct b (ui w) of
             Inl e \<Rightarrow> (Some e, w\<lparr>fetches := fetches w @ [first_request L url]\<rparr>)
           | Inr st \<Rightarrow>
               (None, w\<lparr>ui := st, fetches := fetches w @ [first_request L url],
                        rendered := rendered w @ [st]\<rparr>)))"
  by (simp add: try_block_def fetch_outcome_def first_request_def do_fetch_def set_state_def Let_def
      split: sum.splits option.splits)

lemma catch_block_result:
  "catch_block L net url msg w =
     (if startsWith url ''blob:'' \<or> startsWith url ''http'' then
        (let opts = (if startsWith url ''blob:'' then Mode_cors else Mode_no_cors);
             st1 = (ui w)\<lparr>error := Some (failure_message msg)\<rparr>
         in case fallback_content L net (length (fetches w)) url opts of
              None \<Rightarrow>
                \<lparr>ui = st1, fetches = fetches w @ [\<lparr>req_url = url, req_opts = opts\<rparr>],
                 rendered = rendered w @ [st1]\<rparr>
            | Some c \<Rightarrow>
                \<lparr>ui = st1\<lparr>content := Some c\<rparr>,
                 fetches = fetches w @ [\<lparr>req_url = url, req_opts = opts\<rparr>],
                 rendered = rendered w @ [st1, st1\<lparr>content := Some c\<rparr>]\<rparr>)
      else
        \<lparr>ui = (ui w)\<lparr>error := Some (failure_message msg)\<rparr>, fetches = fetches w,
         rendered = rendered w @ [(ui w)\<lparr>error := Some (failure_message msg)\<rparr>]\<rparr>)"
  by (cases w)
     (simp add: catch_block_def fallback_content_def failure_message_def do_fetch_def set_state_def
        Let_def split: sum.splits)

lemma fetchContent_failed:
  assumes "url \<noteq> []"
      and "fetch_outcome L net (length (fetches w)) url = Inl msg \<or>
           (\<exists>ct b. fetch_outcome L net (length (fetches w)) url = Inr (ct, b) \<and>
                   handleContentType L ct b initial_state = Inl msg)"
  shows "fetchContent L net url w = catch_block L net url msg (after_request L url w)"
  using assms
  by (cases w)
     (auto simp: fetchContent_def try_block_outcome set_state_def reset_state_initial
        after_request_def)



lemma failure_message_nonempty: "failure_message msg \<noteq> []"
  by (simp add: failure_message_def)


lemma failed_cycle:
  assumes "url \<noteq> []"
      and "fetch_outcome L net (length (fetches w)) url = Inl msg \<or>
           (\<exists>ct b. fetch_outcome L net (length (fetches w)) url = Inr (ct, b) \<and>
                   handleContentType L ct b initial_state = Inl msg)"
  shows "ui (fetchContent L net url w) =
           initial_state\<lparr>error := Some (failure_message msg),
             content :=
               (if startsWith url ''blob:'' then
                  fallback_content L net (Suc (length (fetches w))) url Mode_cors
                else if startsWith url ''http'' then
                  fallback_content L net (Suc (length (fetches w))) url Mode_no_cors
                else None)\<rparr> \<and>
         fetches (fetchContent L net url w) =
           fetches w @ first_request L url #
             (if startsWith url ''blob:'' then [\<lparr>req_url = url, req_opts = Mode_cors\<rparr>]
              else if startsWith url ''http'' then [\<lparr>req_url = url, req_opts = Mode_no_cors\<rparr>]
              else []) \<and>
         rendered (fetchContent L net url w) =
           rendered w @ initial_state # initial_state\<lparr>error := Some (failure_message msg)\<rparr> #
             (if ui (fetchContent L net url w) = initial_state\<lparr>error := Some (failure_message msg)\<rparr>
              then [] else [ui (fetchContent L net url w)])"
  unfolding fetchContent_failed [OF assms] catch_block_result after_request_def
  by (auto simp: Let_def initial_state_def split: option.splits)

lemma error_view:
  assumes "error st = Some (failure_message msg)"
  shows "\<exists>link. render st = ErrorView (failure_message msg) link"
  using assms by (simp add: render_def truthy_def text_of_def failure_message_nonempty)

text \<open>
  C4. When the fetched content reaches the CSV branch and the parser yields zero rows, the
  renderer throws \<open>No data found in the CSV file\<close>; the cycle then ends with that
  message in the error banner and without a table. Likewise the spreadsheet branch throws
  \<open>No valid sheets found in the Excel file\<close> when the workbook yields no sheet entry, with
  the same end of the cycle.
\<close>

theorem empty_data_reported:
  assumes "url \<noteq> []"
      and "fetch_outcome L net (length (fetches w)) url = Inr (contentType, b)"
      and "\<not> str_includes contentType ''application/pdf''"
      and "\<not> str_includes contentType ''image/''"
  shows
    "(\<not> str_includes contentType ''application/vnd.openxmlformats-officedocument.spreadsheetml.sheet'' \<and>
      \<not> str_includes contentType ''application/vnd.ms-excel'' \<and>
      str_includes contentType ''text/csv'' \<and> Papa_parse L (blob_bytes b) = [] \<longrightarrow>
        handleContentType L contentType b st = Inl ''No data found in the CSV file'' \<and>
        error (ui (fetchContent L net url w)) =
          Some (failure_message ''No data found in the CSV file'') \<and>
        html (tableData (ui (fetchContent L net url w))) = None \<and>
        (\<exists>link. render (ui (fetchContent L net url w)) =
                  ErrorView (failure_message ''No data found in the CSV file'') link)) \<and>
     ((str_includes contentType ''application/vnd.openxmlformats-officedocument.spreadsheetml.sheet'' \<or>
       str_includes contentType ''application/vnd.ms-excel'') \<and>
      XLSX_read L (blob_bytes b) = Inr wb \<and>
      forEach_sheet L wb (SheetNames wb) [] = Inr sheets \<and> object_keys sheets = [] \<longrightarrow>
        handleContentType L contentType b st = Inl ''No valid sheets found in the Excel file'' \<and>
        error (ui (fetchContent L net url w)) =
          Some (failure_message ''No valid sheets found in the Excel file'') \<and>
        html (tableData (ui (fetchContent L net url w))) = None \<and>
        (\<exists>link. render (ui (fetchContent L net url w)) =
                  ErrorView (failure_message ''No valid sheets found in the Excel file'') link))"
proof (intro conjI impI)
  assume csv: "\<not> str_includes contentType ''application/vnd.openxmlformats-officedocument.spreadsheetml.sheet'' \<and>
      \<not> str_includes contentType ''application/vnd.ms-excel'' \<and>
      str_includes contentType ''text/csv'' \<and> Papa_parse L (blob_bytes b) = []"
  have thrown: "handleContentType L contentType b s = Inl ''No data found in the CSV file''" for s
    using assms(3,4) csv by (simp add: handleContentType_def)
  from thrown show "handleContentType L contentType b st = Inl ''No data found in the CSV file''" .
  have "fetch_outcome L net (length (fetches w)) url = Inl ''No data found in the CSV file'' \<or>
        (\<exists>ct b. fetch_outcome L net (length (fetches w)) url = Inr (ct, b) \<and>
                handleContentType L ct b initial_state = Inl ''No data found in the CSV file'')"
    using assms(2) thrown by blast
  from failed_cycle [OF assms(1) this]
  have u: "error (ui (fetchContent L net url w)) = Some (failure_message ''No data found in the CSV file'')"
    and h: "html (tableData (ui (fetchContent L net url w))) = None"
    by (simp_all add: initial_state_def)
  from u show "error (ui (fetchContent L net url w)) =
          Some (failure_message ''No data found in the CSV file'')" .
  from h show "html (tableData (ui (fetchContent L net url w))) = None" .
  from error_view [OF u] show "\<exists>link. render (ui (fetchContent L net url w)) =
                  ErrorView (failure_message ''No data found in the CSV file'') link" .
next
  assume xl: "(str_includes contentType ''application/vnd.openxmlformats-officedocument.spreadsheetml.sheet'' \<or>
       str_includes contentType ''application/vnd.ms-excel'') \<and>
      XLSX_read L (blob_bytes b) = Inr wb \<and>
      forEach_sheet L wb (SheetNames wb) [] = Inr sheets \<and> object_keys sheets = []"
  then have ty: "str_includes contentType ''application/vnd.openxmlformats-officedocument.spreadsheetml.sheet''
           \<or> str_includes contentType ''application/vnd.ms-excel''" by blast
  have thrown: "handleContentType L contentType b s = Inl ''No valid sheets found in the Excel file''" for s
    using xl by (simp add: spreadsheet_branch [OF assms(3,4) ty])
  from thrown show "handleContentType L contentType b st = Inl ''No valid sheets found in the Excel file''" .
  have "fetch_outcome L net (length (fetches w)) url = Inl ''No valid sheets found in the Excel file'' \<or>
        (\<exists>ct b. fetch_outcome L net (length (fetches w)) url = Inr (ct, b) \<and>
                handleContentType L ct b initial_state = Inl ''No valid sheets found in the Excel file'')"
    using assms(2) thrown by blast
  from failed_cycle [OF assms(1) this]
  have u: "error (ui (fetchContent L net url w)) =
             Some (failure_message ''No valid sheets found in the Excel file'')"
    and h: "html (tableData (ui (fetchContent L net url w))) = None"
    by (simp_all add: initial_state_def)
  from u show "error (ui (fetchContent L net url w)) =
          Some (failure_message ''No valid sheets found in the Excel file'')" .
  from h show "html (tableData (ui (fetchContent L net url w))) = None" .
  from error_view [OF u] show "\<exists>link. render (ui (fetchContent L net url w)) =
                  ErrorView (failure_message ''No valid sheets found in the Excel file'') link" .
qed

lemma empty_csv_outcome:
  "fetch_outcome example_libs net_empty_csv (length (fetches initial_world)) ''http://site.example/empty.csv'' =
     Inr (''text/csv'', empty_csv_blob)"
  by (simp add: fetch_outcome_def first_request_def net_empty_csv_def response_ok_def
      initial_world_def)

lemma empty_xls_outcome:
  "fetch_outcome example_libs net_empty_xls (length (fetches initial_world)) ''blob:http://localhost:3000/77aa'' =
     Inr (''application/vnd.ms-excel'', empty_xls_blob)"
  by (simp add: fetch_outcome_def first_request_def net_empty_xls_def response_ok_def
      initial_world_def empty_xls_blob_def)

theorem empty_data_reported_witness:
  "handleContentType example_libs ''text/csv'' empty_csv_blob initial_state =
     Inl ''No data found in the CSV file'' \<and>
   error (ui (fetchContent example_libs net_empty_csv ''http://site.example/empty.csv'' initial_world)) =
     Some ''Failed to load content: No data found in the CSV file. Ensure the proxy server is running at http://localhost:5001.'' \<and>
   html (tableData (ui (fetchContent example_libs net_empty_csv ''http://site.example/empty.csv''
     initial_world))) = None \<and>
   handleContentType example_libs ''application/vnd.ms-excel'' empty_xls_blob initial_state =
     Inl ''No valid sheets found in the Excel file'' \<and>
   error (ui (fetchContent example_libs net_empty_xls ''blob:http://localhost:3000/77aa'' initial_world)) =
     Some ''Failed to load content: No valid sheets found in the Excel file. Ensure the proxy server is running at http://localhost:5001.'' \<and>
   html (tableData (ui (fetchContent example_libs net_empty_xls ''blob:http://localhost:3000/77aa''
     initial_world))) = None"
proof -
  have h1: "''http://site.example/empty.csv'' \<noteq> []" by simp
  have h3: "\<not> str_includes ''text/csv'' ''application/pdf''" by simp
  have h4: "\<not> str_includes ''text/csv'' ''image/''" by simp
  have c: "\<not> str_includes ''text/csv'' ''application/vnd.openxmlformats-officedocument.spreadsheetml.sheet'' \<and>
      \<not> str_includes ''text/csv'' ''application/vnd.ms-excel'' \<and>
      str_includes ''text/csv'' ''text/csv'' \<and> Papa_parse example_libs (blob_bytes empty_csv_blob) = []"
    by (simp add: example_libs_def empty_csv_blob_def)
  have k1: "''blob:http://localhost:3000/77aa'' \<noteq> []" by simp
  have k3: "\<not> str_includes ''application/vnd.ms-excel'' ''application/pdf''" by simp
  have k4: "\<not> str_includes ''application/vnd.ms-excel'' ''image/''" by simp
  have x: "(str_includes ''application/vnd.ms-excel''
              ''application/vnd.openxmlformats-officedocument.spreadsheetml.sheet'' \<or>
            str_includes ''application/vnd.ms-excel'' ''application/vnd.ms-excel'') \<and>
      XLSX_read example_libs (blob_bytes empty_xls_blob) = Inr empty_workbook \<and>
      forEach_sheet example_libs empty_workbook (SheetNames empty_workbook) [] = Inr [] \<and>
      object_keys [] = []"
    by (simp add: example_libs_def empty_xls_blob_def empty_workbook_def object_keys_def)
  show ?thesis
    using empty_data_reported [where st = initial_state, OF h1 empty_csv_outcome h3 h4] c
      empty_data_reported [where st = initial_state and wb = empty_workbook and sheets = "[]",
        OF k1 empty_xls_outcome k3 k4] x
    by (simp add: failure_message_def)
qed


section \<open>Render states of a cycle\<close>

lemma coherent_variant:
  assumes "cycle_coherent st"
  shows "variant_of (render st) \<noteq> None"
  using assms
  by (auto simp: cycle_coherent_def render_def variant_of_def truthy_def payloads_def
      split: option.splits content_type.splits if_splits)

lemma coherent_initial: "cycle_coherent initial_state"
  by (simp add: cycle_coherent_def initial_state_def payloads_def)


















section \<open>Failed fetches\<close>





end
